theory Spec2Isabelle
  imports
    Complex_Main
    "HOL-Library.Sublist"
    "HOL-Library.Multiset"
    "HOL-Library.Char_ord"
    "HOL-Library.List_Lexorder"
begin

section \<open>The feedback analytics pipeline of \<^verbatim>\<open>app.py\<close>\<close>

text \<open>
  The script loads the uploaded survey files into one table, labels every row with a mode
  derived from its file name, filters the table, and computes five report sections from
  the filtered table. What follows embeds this pipeline function by function.

  The tables are pandas data frames. The library operations the script calls are
  modelled by what they compute on the data:
  \<^item> a cell is missing, a number, one of the two infinities, a text or, in a date column,
    a timestamp or the missing timestamp. Finite numbers are exact rationals, so the
    binary rounding of floating point is not part of the model; the infinities and the
    undefined sum of the two are;
  \<^item> a row is a function from column identifiers to cells; a frame is its column
    identifiers, in order, and its rows, in order. The identifiers of a frame are pairwise
    distinct: a table with two columns under one identifier is not a frame, and the
    loader says so when pandas builds one or fails on it;
  \<^item> the conversion of a text to a number inside \<^verbatim>\<open>pd.to_numeric\<close> and the printing of
    a cell that is not a text by \<^verbatim>\<open>astype(str)\<close> are library functions: every definition
    that needs one takes it as the parameter \<open>parse\<close>, respectively \<open>repr\<close>;
  \<^item> strings are byte strings, and \<^verbatim>\<open>lower\<close> and \<^verbatim>\<open>strip\<close> act on their ASCII
    letters and ASCII white space.
\<close>

subsection \<open>Strings\<close>

text \<open>\<^verbatim>\<open>str.lower\<close>, on the letters A to Z.\<close>

definition lower_char :: "char \<Rightarrow> char" where
  "lower_char c =
     (case map_of (zip ''ABCDEFGHIJKLMNOPQRSTUVWXYZ'' ''abcdefghijklmnopqrstuvwxyz'') c of
        Some d \<Rightarrow> d
      | None \<Rightarrow> c)"

definition lower :: "string \<Rightarrow> string" where
  "lower s = map lower_char s"

text \<open>
  \<^verbatim>\<open>str.strip\<close>: the characters that \<^verbatim>\<open>str.isspace\<close> accepts below 128 are the
  tab, the line feed, the vertical tab, the form feed, the carriage return, the four
  separators 28 to 31 and the space.
\<close>

definition is_space :: "char \<Rightarrow> bool" where
  "is_space c \<longleftrightarrow>
     c \<in> set [CHR 0x09, CHR 0x0A, CHR 0x0B, CHR 0x0C, CHR 0x0D,
              CHR 0x1C, CHR 0x1D, CHR 0x1E, CHR 0x1F, CHR 0x20]"

definition strip :: "string \<Rightarrow> string" where
  "strip s = rev (dropWhile is_space (rev (dropWhile is_space s)))"

text \<open>The operator \<^verbatim>\<open>k in c\<close> on strings: \<open>k\<close> occurs in \<open>c\<close> as a contiguous run.\<close>

fun str_in :: "string \<Rightarrow> string \<Rightarrow> bool" where
  "str_in k [] = (k = [])"
| "str_in k (x # xs) = (prefix k (x # xs) \<or> str_in k xs)"

subsection \<open>Cells, series and numeric coercion\<close>

text \<open>
  The cells of a table. \<open>NA\<close> is the missing value of a column of numbers or texts (NaN,
  None). \<open>Date\<close> and \<open>NaT\<close> are the cells of a column of type datetime64, as
  \<^verbatim>\<open>pd.read_excel\<close> makes of a column of dates: a timestamp in nanoseconds, and the
  missing timestamp.
\<close>

datatype cell = NA | NaT | Date int | Num rat | PosInf | NegInf | Txt string

text \<open>The values of a numeric series other than NaN: a finite number or an infinity.\<close>

datatype double = Fin rat | PInf | NInf

text \<open>
  A numeric series is a list of \<open>double option\<close>, \<open>None\<close> standing for NaN.
  \<^verbatim>\<open>pd.to_numeric(s, errors="coerce")\<close> keeps a number, turns a missing cell into NaN and
  a text into what the library's parser makes of it, NaN when it does not read as a
  number. A column of type datetime64 it views as 64-bit integers: a timestamp becomes
  its number of nanoseconds and the missing timestamp the least 64-bit integer, which is
  a number like any other.
\<close>

fun to_numeric :: "(string \<Rightarrow> double option) \<Rightarrow> cell \<Rightarrow> double option" where
  "to_numeric parse NA = None"
| "to_numeric parse NaT = Some (Fin (- (2 ^ 63)))"
| "to_numeric parse (Date n) = Some (Fin (of_int n))"
| "to_numeric parse (Num q) = Some (Fin q)"
| "to_numeric parse PosInf = Some PInf"
| "to_numeric parse NegInf = Some NInf"
| "to_numeric parse (Txt s) = parse s"

definition safe_num :: "(string \<Rightarrow> double option) \<Rightarrow> cell list \<Rightarrow> double option list" where
  "safe_num parse s = map (to_numeric parse) s"

text \<open>\<^verbatim>\<open>s.notna().sum()\<close>: the number of entries that are not NaN.\<close>

definition notna_sum :: "double option list \<Rightarrow> nat" where
  "notna_sum s = length (filter (\<lambda>v. v \<noteq> None) s)"

text \<open>
  The sum of floating point values, exact on finite numbers: an infinity absorbs every
  finite number and the infinity of its sign, and the sum of the two infinities is NaN.
\<close>

fun fadd :: "double \<Rightarrow> double \<Rightarrow> double option" where
  "fadd (Fin a) (Fin b) = Some (Fin (a + b))"
| "fadd (Fin a) PInf = Some PInf"
| "fadd (Fin a) NInf = Some NInf"
| "fadd PInf (Fin b) = Some PInf"
| "fadd PInf PInf = Some PInf"
| "fadd PInf NInf = None"
| "fadd NInf (Fin b) = Some NInf"
| "fadd NInf NInf = Some NInf"
| "fadd NInf PInf = None"

primrec fsum :: "double list \<Rightarrow> double option" where
  "fsum [] = Some (Fin 0)"
| "fsum (v # vs) = (case fsum vs of None \<Rightarrow> None | Some s \<Rightarrow> fadd v s)"

fun fdiv :: "double \<Rightarrow> nat \<Rightarrow> double" where
  "fdiv (Fin q) n = Fin (q / of_nat n)"
| "fdiv PInf n = PInf"
| "fdiv NInf n = NInf"

text \<open>
  \<^verbatim>\<open>s.mean()\<close> skips NaN: the sum of the present values over their number, and NaN when
  there is none.
\<close>

definition present :: "double option list \<Rightarrow> double list" where
  "present s = [v. Some v \<leftarrow> s]"

definition mean :: "double option list \<Rightarrow> double option" where
  "mean s =
     (let vs = present s in
      if vs = [] then None else map_option (\<lambda>t. fdiv t (length vs)) (fsum vs))"

text \<open>
  \<^verbatim>\<open>round(x, 2)\<close> on a numpy float: scale by 100, round to the nearest integer with ties
  to the even one, scale back. NaN stays NaN and an infinity stays what it is.
\<close>

definition rint :: "rat \<Rightarrow> int" where
  "rint q =
     (let f = \<lfloor>q\<rfloor>; d = q - of_int f in
      if d < 1 / 2 then f
      else if 1 / 2 < d then f + 1
      else if even f then f else f + 1)"

fun round2_value :: "double \<Rightarrow> double" where
  "round2_value (Fin q) = Fin (of_int (rint (q * 100)) / 100)"
| "round2_value PInf = PInf"
| "round2_value NInf = NInf"

definition round2 :: "double option \<Rightarrow> double option" where
  "round2 x = map_option round2_value x"

text \<open>
  \<^verbatim>\<open>s.dropna()\<close> drops the missing cells, of either kind; \<^verbatim>\<open>s.astype(str)\<close> keeps a text
  and prints every other cell.
\<close>

fun isna :: "cell \<Rightarrow> bool" where
  "isna NA = True"
| "isna NaT = True"
| "isna c = False"

definition dropna :: "cell list \<Rightarrow> cell list" where
  "dropna s = filter (\<lambda>c. \<not> isna c) s"

definition astype_str :: "(cell \<Rightarrow> string) \<Rightarrow> cell \<Rightarrow> string" where
  "astype_str repr c = (case c of Txt s \<Rightarrow> s | _ \<Rightarrow> repr c)"

text \<open>Errors and section-level signals, as values.\<close>

datatype error =
    MissingAnchor
  | EmptySubjectBlock
  | MissingColumn
  | EmptyResult
  | IndexError
  | InvalidIndexError
  | RepeatedIdentifiers

text \<open>\<^verbatim>\<open>s.iloc[0]\<close> raises \<^verbatim>\<open>IndexError\<close> on an empty series.\<close>

fun iloc0 :: "'a list \<Rightarrow> error + 'a" where
  "iloc0 [] = Inl IndexError"
| "iloc0 (x # xs) = Inr x"

subsection \<open>Frames\<close>

type_synonym row = "string \<Rightarrow> cell"

record frame =
  columns :: "string list"
  rows :: "row list"

text \<open>\<^verbatim>\<open>df[c]\<close>, the series of column \<open>c\<close>, and \<^verbatim>\<open>len(df)\<close>.\<close>

definition getcol :: "frame \<Rightarrow> string \<Rightarrow> cell list" where
  "getcol df c = map (\<lambda>r. r c) (rows df)"

definition len :: "frame \<Rightarrow> nat" where
  "len df = length (rows df)"

text \<open>\<^verbatim>\<open>df[mask]\<close> keeps the rows the mask selects, in their order.\<close>

definition select_rows :: "(row \<Rightarrow> bool) \<Rightarrow> frame \<Rightarrow> frame" where
  "select_rows p df = df\<lparr>rows := filter p (rows df)\<rparr>"

text \<open>
  \<^verbatim>\<open>df[c] = ...\<close> writes column \<open>c\<close>: in place when the frame has it, as a new last
  column otherwise.
\<close>

definition set_column :: "string \<Rightarrow> (row \<Rightarrow> cell) \<Rightarrow> frame \<Rightarrow> frame" where
  "set_column c f df =
     \<lparr>columns = (if c \<in> set (columns df) then columns df else columns df @ [c]),
      rows = map (\<lambda>r. r(c := f r)) (rows df)\<rparr>"

text \<open>The first occurrences of a list, in order.\<close>

definition unique :: "'a list \<Rightarrow> 'a list" where
  "unique xs = rev (remdups (rev xs))"

text \<open>
  \<^verbatim>\<open>columns.get_loc(c)\<close> for an identifier the index holds once: its position.
\<close>

definition get_loc :: "string list \<Rightarrow> string \<Rightarrow> nat" where
  "get_loc cols c = length (takeWhile (\<lambda>x. x \<noteq> c) cols)"

subsection \<open>Loading and concatenating the uploaded files\<close>

text \<open>
  An uploaded file, as \<^verbatim>\<open>pd.read_csv\<close> or \<^verbatim>\<open>pd.read_excel\<close> returns it: its name,
  the column identifiers as read (texts or numbers) and the rows, each a list of cells
  in the order of the identifiers.
\<close>

record upload =
  name :: string
  header :: "cell list"
  body :: "cell list list"

text \<open>\<^verbatim>\<open>df.columns.astype(str).str.strip().str.lower()\<close>\<close>

definition normalize :: "(cell \<Rightarrow> string) \<Rightarrow> cell \<Rightarrow> string" where
  "normalize repr h = lower (strip (astype_str repr h))"

text \<open>
  The identifiers of a file's table once the loop has renamed them and written
  \<^verbatim>\<open>source_file\<close>. They can repeat: two identifiers of the file can normalize to one.
\<close>

definition labels :: "(cell \<Rightarrow> string) \<Rightarrow> upload \<Rightarrow> string list" where
  "labels repr f =
     (let cols = map (normalize repr) (header f)
      in if ''source_file'' \<in> set cols then cols else cols @ [''source_file''])"

definition mk_row :: "string list \<Rightarrow> cell list \<Rightarrow> row" where
  "mk_row cols cells = (\<lambda>c. case map_of (zip cols cells) c of Some v \<Rightarrow> v | None \<Rightarrow> NA)"

text \<open>
  The body of the loading loop: rename the columns, then tag every row with the file name.
  The result is the file's table when its identifiers do not repeat.
\<close>

definition load_file :: "(cell \<Rightarrow> string) \<Rightarrow> upload \<Rightarrow> frame" where
  "load_file repr f =
     (let cols = map (normalize repr) (header f);
          df = \<lparr>columns = cols, rows = map (mk_row cols) (body f)\<rparr>
      in set_column ''source_file'' (\<lambda>r. Txt (name f)) df)"

text \<open>
  \<^verbatim>\<open>pd.concat(dfs, ignore_index=True)\<close> on frames: the columns are the union of the
  frames' columns in the order of their first appearance and the rows follow each other
  frame by frame. A row is missing in the columns its frame does not have: the missing
  timestamp in a column that is of type datetime64 in every frame that has it, and the
  missing value otherwise.
\<close>

fun isdate :: "cell \<Rightarrow> bool" where
  "isdate NaT = True"
| "isdate (Date n) = True"
| "isdate c = False"

definition datetime_col :: "frame \<Rightarrow> string \<Rightarrow> bool" where
  "datetime_col df c \<longleftrightarrow> rows df \<noteq> [] \<and> list_all (\<lambda>r. isdate (r c)) (rows df)"

definition fill_value :: "frame list \<Rightarrow> string \<Rightarrow> cell" where
  "fill_value dfs c =
     (if list_ex (\<lambda>df. c \<in> set (columns df)) dfs
         \<and> list_all (\<lambda>df. if c \<in> set (columns df) then datetime_col df c else True) dfs
      then NaT else NA)"

definition reindex :: "frame list \<Rightarrow> frame \<Rightarrow> row \<Rightarrow> row" where
  "reindex dfs df r = (\<lambda>c. if c \<in> set (columns df) then r c else fill_value dfs c)"

definition concat_frames :: "frame list \<Rightarrow> frame" where
  "concat_frames dfs =
     \<lparr>columns = unique (concat (map columns dfs)),
      rows = concat (map (\<lambda>df. map (reindex dfs df) (rows df)) dfs)\<rparr>"

text \<open>
  The loading stage. The script stops when nothing is uploaded. When the identifiers of
  some file repeat, \<^verbatim>\<open>pd.concat\<close> raises \<^verbatim>\<open>InvalidIndexError\<close> as soon as it has to align
  that file's table with the union of the columns, that is, unless all the files have the
  same list of identifiers; in that case it returns a table with repeated identifiers,
  which is not a frame. Otherwise \<open>data\<close> is the unified table.
\<close>

definition data :: "(cell \<Rightarrow> string) \<Rightarrow> upload list \<Rightarrow> (error + frame) option" where
  "data repr files =
     (if files = [] then None
      else if list_all (\<lambda>f. distinct (labels repr f)) files
      then Some (Inr (concat_frames (map (load_file repr) files)))
      else if list_all (\<lambda>f. labels repr f = labels repr (hd files)) files
      then Some (Inl RepeatedIdentifiers)
      else Some (Inl InvalidIndexError))"

subsection \<open>Mode classification and the sidebar filters\<close>

definition detect_mode :: "string \<Rightarrow> string" where
  "detect_mode x0 =
     (let x = lower x0 in
      if str_in ''distance'' x then ''Distance''
      else if str_in ''dtl'' x then ''DTL''
      else if str_in ''online'' x then ''Online''
      else ''Unknown'')"

text \<open>
  \<^verbatim>\<open>data["mode"] = data["source_file"].apply(detect_mode)\<close>. Every row of \<open>data\<close> holds
  its file name, a text, in \<^verbatim>\<open>source_file\<close>; the other cases are never met.
\<close>

definition mode_cell :: "cell \<Rightarrow> cell" where
  "mode_cell c = (case c of Txt x \<Rightarrow> Txt (detect_mode x) | _ \<Rightarrow> NA)"

definition with_mode :: "frame \<Rightarrow> frame" where
  "with_mode df = set_column ''mode'' (\<lambda>r. mode_cell (r ''source_file'')) df"

text \<open>
  The two selections of the sidebar, \<open>modes\<close> and \<open>files_sel\<close>, each applied with
  \<^verbatim>\<open>isin\<close>.
\<close>

definition filtered :: "string list \<Rightarrow> string list \<Rightarrow> frame \<Rightarrow> frame" where
  "filtered modes files_sel df =
     select_rows (\<lambda>r. r ''source_file'' \<in> Txt ` set files_sel)
       (select_rows (\<lambda>r. r ''mode'' \<in> Txt ` set modes) (with_mode df))"

subsection \<open>Tab 1: overview\<close>

definition rating_cols :: "frame \<Rightarrow> string list" where
  "rating_cols df = filter (\<lambda>c. str_in ''rate'' c \<or> str_in ''rating'' c) (columns df)"

text \<open>
  \<^verbatim>\<open>df[cs].apply(safe_num)\<close> coerces every column of the selection; the result is kept
  row by row here. \<^verbatim>\<open>stack()\<close> then lists its entries row after row, and within a row in
  the order of the columns, leaving out NaN.
\<close>

definition apply_safe_num :: "(string \<Rightarrow> double option) \<Rightarrow> string list \<Rightarrow> frame \<Rightarrow> double option list list" where
  "apply_safe_num parse cs df = map (\<lambda>r. map (\<lambda>c. to_numeric parse (r c)) cs) (rows df)"

definition stack :: "double option list list \<Rightarrow> double option list" where
  "stack nf = filter (\<lambda>v. v \<noteq> None) (concat nf)"

definition overall_avg :: "(string \<Rightarrow> double option) \<Rightarrow> frame \<Rightarrow> double option" where
  "overall_avg parse df = mean (stack (apply_safe_num parse (rating_cols df) df))"

text \<open>The two metrics shown: the number of responses and the average, rounded.\<close>

definition overview :: "(string \<Rightarrow> double option) \<Rightarrow> frame \<Rightarrow> nat \<times> double option" where
  "overview parse df = (len df, round2 (overall_avg parse df))"

subsection \<open>Tab 2: delivery of lecture, file by file\<close>

text \<open>
  \<^verbatim>\<open>groupby(key)[val].mean()\<close>: one row per distinct key, the keys in ascending order,
  with the mean of the group's values.
\<close>

definition groupby_mean :: "(string \<times> double option) list \<Rightarrow> (string \<times> double option) list" where
  "groupby_mean kvs =
     map (\<lambda>k. (k, mean [v. (k', v) \<leftarrow> kvs, k' = k])) (sort (remdups (map fst kvs)))"

definition delivery_of_lecture ::
  "(string \<Rightarrow> double option) \<Rightarrow> frame \<Rightarrow> error + (string \<times> double option) list" where
  "delivery_of_lecture parse df =
     (case find (\<lambda>c. str_in ''delivery of lecture'' c) (columns df) of
        None \<Rightarrow> Inl MissingAnchor
      | Some col \<Rightarrow>
          Inr (groupby_mean
                 [(f, to_numeric parse (r col)). r \<leftarrow> rows df, Txt f \<leftarrow> [r ''source_file'']]))"

subsection \<open>Tab 3: learner support centre, distance only\<close>

text \<open>
  \<^verbatim>\<open>s.value_counts()\<close>: every distinct value with the number of its occurrences, the
  larger counts first; values with equal counts are kept in the order of their first
  appearance.
\<close>

definition value_counts :: "string list \<Rightarrow> (string \<times> nat) list" where
  "value_counts s =
     sort_key (\<lambda>(v, n). - int n) (map (\<lambda>v. (v, count_list s v)) (unique s))"

definition learner_support_centre ::
  "(cell \<Rightarrow> string) \<Rightarrow> frame \<Rightarrow> error + (string \<times> nat) list" where
  "learner_support_centre repr df =
     (if ''learner support centre'' \<notin> set (columns df) then Inl MissingColumn
      else
        let lsc = map (\<lambda>c. strip (astype_str repr c))
                    (dropna (getcol (select_rows (\<lambda>r. r ''mode'' = Txt ''Distance'') df)
                               ''learner support centre''))
        in if lsc = [] then Inl EmptyResult else Inr (value_counts lsc))"

subsection \<open>Tab 4: master dashboard\<close>

definition param_keywords :: "string list" where
  "param_keywords =
     [''ease'', ''admission'', ''support'', ''syllabus'',
      ''curriculum'', ''self-learning'', ''quality'']"

text \<open>The loop over the columns, \<open>params\<close> being the rows appended so far.\<close>

fun params_loop ::
  "(string \<Rightarrow> double option) \<Rightarrow> frame \<Rightarrow> (string \<times> double option) list \<Rightarrow> string list
     \<Rightarrow> (string \<times> double option) list" where
  "params_loop parse df params [] = params"
| "params_loop parse df params (c # cs) =
     (if list_ex (\<lambda>k. str_in k c) param_keywords then
        (let num = safe_num parse (getcol df c) in
         if 0 < notna_sum num
         then params_loop parse df (params @ [(c, round2 (mean num))]) cs
         else params_loop parse df params cs)
      else params_loop parse df params cs)"

definition master_dashboard :: "(string \<Rightarrow> double option) \<Rightarrow> frame \<Rightarrow> (string \<times> double option) list" where
  "master_dashboard parse df = params_loop parse df [] (columns df)"

subsection \<open>Tab 5: subject-wise comparison\<close>

text \<open>The scan of the columns after the anchor: it appends until the first column without a number.\<close>

fun subject_scan ::
  "(string \<Rightarrow> double option) \<Rightarrow> frame \<Rightarrow> string list \<Rightarrow> string list \<Rightarrow> string list" where
  "subject_scan parse df subject_cols [] = subject_cols"
| "subject_scan parse df subject_cols (c # cs) =
     (if 0 < notna_sum (safe_num parse (getcol df c))
      then subject_scan parse df (subject_cols @ [c]) cs
      else subject_cols)"

definition subject_cols :: "(string \<Rightarrow> double option) \<Rightarrow> frame \<Rightarrow> string \<Rightarrow> string list" where
  "subject_cols parse df section =
     (let start_idx = get_loc (columns df) section + 1;
          tail = drop start_idx (columns df)
      in subject_scan parse df [] tail)"

text \<open>The loop that builds one row per subject column; \<^verbatim>\<open>iloc[0]\<close> can raise.\<close>

fun subject_rows ::
  "(string \<Rightarrow> double option) \<Rightarrow> (cell \<Rightarrow> string) \<Rightarrow> frame \<Rightarrow> (string \<times> double option) list
     \<Rightarrow> string list \<Rightarrow> error + (string \<times> double option) list" where
  "subject_rows parse repr df rws [] = Inr rws"
| "subject_rows parse repr df rws (c # cs) =
     (case iloc0 (map (astype_str repr) (dropna (getcol df c))) of
        Inl e \<Rightarrow> Inl e
      | Inr nm \<Rightarrow>
          (let avg = mean (safe_num parse (getcol df c))
           in subject_rows parse repr df (rws @ [(nm, round2 avg)]) cs))"

definition subject_wise ::
  "(string \<Rightarrow> double option) \<Rightarrow> (cell \<Rightarrow> string) \<Rightarrow> frame \<Rightarrow> error + (string \<times> double option) list" where
  "subject_wise parse repr df =
     (case find (\<lambda>c. str_in ''delivery of lecture'' c) (columns df) of
        None \<Rightarrow> Inl MissingAnchor
      | Some section \<Rightarrow>
          (let cs = subject_cols parse df section
           in if cs = [] then Inl EmptySubjectBlock
              else subject_rows parse repr df [] cs))"

subsection \<open>Notions of the specification, and example tables\<close>

text \<open>A column has a number when at least one of its values coerces.\<close>

definition has_numeric :: "(string \<Rightarrow> double option) \<Rightarrow> frame \<Rightarrow> string \<Rightarrow> bool" where
  "has_numeric parse df c \<longleftrightarrow> list_ex (\<lambda>r. to_numeric parse (r c) \<noteq> None) (rows df)"

text \<open>A parser for the examples: it reads the text \<open>5\<close> and nothing else.\<close>

definition example_parse :: "string \<Rightarrow> double option" where
  "example_parse s = (if s = ''5'' then Some (Fin 5) else None)"


text \<open>The identifier of the anchor column contains this text.\<close>

abbreviation (input) dl :: string where
  "dl \<equiv> ''delivery of lecture''"

text \<open>
  The display name of a subject column: its first value that is not missing, as a text.
\<close>

definition subject_name :: "(cell \<Rightarrow> string) \<Rightarrow> frame \<Rightarrow> string \<Rightarrow> string" where
  "subject_name repr df c =
     (case dropna (getcol df c) of [] \<Rightarrow> [] | x # xs \<Rightarrow> astype_str repr x)"

text \<open>A printer of the cells that are not texts, for the examples.\<close>

definition example_repr :: "cell \<Rightarrow> string" where
  "example_repr c = ''value''"

definition master_example :: frame where
  "master_example =
     \<lparr>columns = [''name'', ''ease of admission'', ''quality of material'', ''student support''],
      rows = map (mk_row [''name'', ''ease of admission'', ''quality of material'', ''student support''])
        [[Txt ''Asha'', Num 4, Txt ''5'', Txt ''good''],
         [Txt ''Ravi'', Num 3, Num 4, NA],
         [Txt ''Mary'', NA, Txt ''n/a'', Txt ''fine'']]\<rparr>"

definition gap_example :: frame where
  "gap_example =
     \<lparr>columns = [''delivery of lecture'', ''remarks'', ''score''],
      rows = map (mk_row [''delivery of lecture'', ''remarks'', ''score''])
        [[Txt ''Section A'', Txt ''good'', Num 4],
         [NA, NA, Num 5]]\<rparr>"

definition remarks_example :: frame where
  "remarks_example =
     \<lparr>columns = [''delivery of lecture'', ''remarks''],
      rows = map (mk_row [''delivery of lecture'', ''remarks''])
        [[Txt ''Section A'', Txt ''good''],
         [NA, Txt ''fair'']]\<rparr>"

text \<open>
  The arithmetic mean of a list of values. It is undefined for the empty list and for a
  list that holds both infinities, an infinity for a list that holds that infinity only,
  and the sum of the numbers over their number for a list of finite numbers.
\<close>

fun is_fin :: "double \<Rightarrow> bool" where
  "is_fin (Fin q) = True"
| "is_fin v = False"

fun fin_value :: "double \<Rightarrow> rat" where
  "fin_value (Fin q) = q"
| "fin_value v = 0"

definition arith_mean :: "double list \<Rightarrow> double option" where
  "arith_mean vs =
     (if vs = [] then None
      else if PInf \<in> set vs then (if NInf \<in> set vs then None else Some PInf)
      else if NInf \<in> set vs then Some NInf
      else Some (Fin (sum_list (map fin_value vs) / of_nat (length vs))))"

text \<open>
  The pool of the overall average: the values of every rating column, column after
  column, that coerce to a number.
\<close>

definition rating_pool :: "(string \<Rightarrow> double option) \<Rightarrow> frame \<Rightarrow> double list" where
  "rating_pool parse df = concat (map (\<lambda>c. present (safe_num parse (getcol df c))) (rating_cols df))"

text \<open>A table with two rating columns, for the overview.\<close>

definition overview_example :: frame where
  "overview_example =
     \<lparr>columns = [''name'', ''rate the course'', ''overall rating'', ''remarks''],
      rows = map (mk_row [''name'', ''rate the course'', ''overall rating'', ''remarks''])
        [[Txt ''Asha'', Num 4, Txt ''5'', Txt ''good''],
         [Txt ''Ravi'', Num 3, NA, NA],
         [Txt ''Mary'', Txt ''n/a'', Num 3, Num 1]]\<rparr>"

text \<open>
  The origins of the rows of a table, and the values of one origin in a column that
  coerce to a number.
\<close>

definition origins :: "frame \<Rightarrow> string list" where
  "origins df = [f. r \<leftarrow> rows df, Txt f \<leftarrow> [r ''source_file'']]"

definition group_values :: "(string \<Rightarrow> double option) \<Rightarrow> frame \<Rightarrow> string \<Rightarrow> string \<Rightarrow> double list" where
  "group_values parse df col f =
     [v. r \<leftarrow> rows df, r ''source_file'' = Txt f, Some v \<leftarrow> [to_numeric parse (r col)]]"

text \<open>Three files; the delivery of lecture ratings of the third do not coerce.\<close>

definition delivery_example :: frame where
  "delivery_example =
     \<lparr>columns = [''name'', ''delivery of lecture'', ''source_file'', ''mode''],
      rows = map (mk_row [''name'', ''delivery of lecture'', ''source_file'', ''mode''])
        [[Txt ''Asha'', Num 3, Txt ''mba_online.csv'', Txt ''Online''],
         [Txt ''Ravi'', Num 1, Txt ''ba_distance.csv'', Txt ''Distance''],
         [Txt ''Mary'', Txt ''n/a'', Txt ''bsc_dtl.csv'', Txt ''DTL''],
         [Txt ''John'', Num 4, Txt ''mba_online.csv'', Txt ''Online''],
         [Txt ''Lila'', Num 2, Txt ''ba_distance.csv'', Txt ''Distance''],
         [Txt ''Omar'', Num 5, Txt ''mba_online.csv'', Txt ''Online''],
         [Txt ''Nora'', NA, Txt ''bsc_dtl.csv'', Txt ''DTL'']]\<rparr>"

text \<open>
  The values counted in tab 3: the cells of the learner support centre column that are not
  missing, in the rows of mode Distance, as trimmed texts.
\<close>

abbreviation (input) lsc :: string where
  "lsc \<equiv> ''learner support centre''"

definition distance_values :: "(cell \<Rightarrow> string) \<Rightarrow> frame \<Rightarrow> string list" where
  "distance_values repr df =
     [strip (astype_str repr (r lsc)). r \<leftarrow> rows df, r ''mode'' = Txt ''Distance'', \<not> isna (r lsc)]"

text \<open>A table for tab 3, and its rows of mode Online.\<close>

definition lsc_example :: frame where
  "lsc_example =
     \<lparr>columns = [''name'', ''learner support centre'', ''source_file'', ''mode''],
      rows = map (mk_row [''name'', ''learner support centre'', ''source_file'', ''mode''])
        [[Txt ''Asha'', Txt ''X'', Txt ''ba_distance.csv'', Txt ''Distance''],
         [Txt ''Ravi'', Txt '' x '', Txt ''ba_distance.csv'', Txt ''Distance''],
         [Txt ''Mary'', Txt ''x'', Txt ''mba_online.csv'', Txt ''Online''],
         [Txt ''John'', NA, Txt ''ba_distance.csv'', Txt ''Distance''],
         [Txt ''Lila'', Txt ''x'', Txt ''ba_distance.csv'', Txt ''Distance''],
         [Txt ''Omar'', Txt ''Y'', Txt ''ba_distance.csv'', Txt ''Distance'']]\<rparr>"

definition online_example :: frame where
  "online_example = select_rows (\<lambda>r. r ''mode'' = Txt ''Online'') lsc_example"

text \<open>Two uploaded files; the second holds the same row twice.\<close>

definition upload_ba :: upload where
  "upload_ba =
     \<lparr>name = ''BA_Distance.csv'',
      header = [Txt '' Name '', Txt ''Rate The Course''],
      body = [[Txt ''Asha'', Num 4], [Txt ''Ravi'', Num 3]]\<rparr>"

definition upload_mba :: upload where
  "upload_mba =
     \<lparr>name = ''MBA_Online.xlsx'',
      header = [Txt ''name'', Txt ''Remarks''],
      body = [[Txt ''Asha'', Txt ''ok''], [Txt ''Asha'', Txt ''ok'']]\<rparr>"

definition uploads_example :: "upload list" where
  "uploads_example = [upload_ba, upload_mba]"

text \<open>
  A column coerces to a value when one of its cells does; it has mixed infinities when it
  coerces to both of them.
\<close>

definition coerces_to :: "(string \<Rightarrow> double option) \<Rightarrow> frame \<Rightarrow> string \<Rightarrow> double \<Rightarrow> bool" where
  "coerces_to parse df c v \<longleftrightarrow> list_ex (\<lambda>r. to_numeric parse (r c) = Some v) (rows df)"


text \<open>The subject table with a column before the anchor.\<close>

definition named_subject_example :: frame where
  "named_subject_example =
     \<lparr>columns =
        [''name'', ''delivery of lecture'', ''unnamed: 2'', ''unnamed: 3'', ''unnamed: 4'',
         ''unnamed: 5''],
      rows = map (mk_row
          [''name'', ''delivery of lecture'', ''unnamed: 2'', ''unnamed: 3'', ''unnamed: 4'',
           ''unnamed: 5''])
        [[NA, Txt ''Section A'', Txt ''Maths'', Txt ''Physics'', Txt ''Remarks'', Txt ''Chemistry''],
         [Txt ''Asha'', NA, Num 4, Txt ''5'', Txt ''good'', Num 3],
         [Txt ''Ravi'', NA, Num 5, Num 4, NA, Num 4]]\<rparr>"

text \<open>A rating column whose mean, 4/3, has no finite decimal expansion.\<close>

definition thirds_example :: frame where
  "thirds_example =
     \<lparr>columns = [''name'', ''rating''],
      rows = map (mk_row [''name'', ''rating''])
        [[Txt ''Asha'', Num 1], [Txt ''Ravi'', Num 1], [Txt ''Mary'', Num 2]]\<rparr>"



text \<open>
  Two spreadsheets. The first has a column of dates after the anchor, the second has no
  such column. The table that is left when the sidebar selects the second file only.
\<close>

definition upload_visits :: upload where
  "upload_visits =
     \<lparr>name = ''bsc_online.xlsx'',
      header = [Txt ''Delivery of Lecture'', Txt ''Visit''],
      body = [[Txt ''Section A'', Date 1700000000000000000], [Num 4, NaT]]\<rparr>"

definition upload_plain :: upload where
  "upload_plain =
     \<lparr>name = ''ba_distance.xlsx'',
      header = [Txt ''Delivery of Lecture''],
      body = [[Txt ''Section B''], [Num 5]]\<rparr>"

definition date_table :: frame where
  "date_table = concat_frames (map (load_file example_repr) [upload_visits, upload_plain])"

definition date_filtered :: frame where
  "date_filtered = filtered [''Distance''] [''ba_distance.xlsx''] date_table"

text \<open>A file with two identifiers that normalize to one, uploaded beside another file.\<close>

definition upload_collide :: upload where
  "upload_collide =
     \<lparr>name = ''bca_dtl.csv'',
      header = [Txt ''Quality'', Txt ''quality ''],
      body = [[Num 4, Num 2]]\<rparr>"

text \<open>A rating column without a value.\<close>

definition blank_rating_example :: frame where
  "blank_rating_example =
     \<lparr>columns = [''name'', ''rating''],
      rows = map (mk_row [''name'', ''rating'']) [[Txt ''Asha'', NA], [Txt ''Ravi'', NA]]\<rparr>"

text \<open>The unified table of the two uploaded files.\<close>

definition unified_example :: frame where
  "unified_example = concat_frames (map (load_file example_repr) uploads_example)"

section \<open>Properties\<close>

subsection \<open>Strings\<close>

lemma str_in_sublist: "str_in k c \<longleftrightarrow> sublist k c"
  by (induction c) (simp_all add: sublist_Cons_right)

lemma lower_append: "lower (xs @ ys) = lower xs @ lower ys"
  by (simp add: lower_def)

lemma sublist_lower: "sublist k c \<Longrightarrow> sublist (lower k) (lower c)"
  unfolding sublist_def by (metis lower_append)

lemma lower_distance: "lower ''distance'' = ''distance''"
  by (simp add: lower_def lower_char_def)

lemma lower_dtl: "lower ''dtl'' = ''dtl''"
  by (simp add: lower_def lower_char_def)

lemma astype_str_Txt [simp]: "astype_str repr (Txt s) = s"
  by (simp add: astype_str_def)

subsection \<open>Mode classification\<close>

text \<open>
  Claim C2. The mode is a function of the origin alone. With the origin in lower case, the
  tests for \<open>distance\<close>, \<open>dtl\<close> and \<open>online\<close> run in this order and the first that
  succeeds decides; \<open>Unknown\<close> is the answer when none does. So every origin gets one of
  the four labels, and an origin that contains both \<open>distance\<close> and \<open>dtl\<close>, before or
  after case folding, is classified as Distance.
\<close>

theorem detect_mode_ordered_total:
  "detect_mode x =
     (if sublist ''distance'' (lower x) then ''Distance''
      else if sublist ''dtl'' (lower x) then ''DTL''
      else if sublist ''online'' (lower x) then ''Online''
      else ''Unknown'')
   \<and> detect_mode x \<in> {''Distance'', ''DTL'', ''Online'', ''Unknown''}
   \<and> (sublist ''distance'' (lower x) \<and> sublist ''dtl'' (lower x) \<longrightarrow> detect_mode x = ''Distance'')
   \<and> (sublist ''distance'' x \<and> sublist ''dtl'' x \<longrightarrow> detect_mode x = ''Distance'')"
proof -
  have eq: "detect_mode x =
     (if sublist ''distance'' (lower x) then ''Distance''
      else if sublist ''dtl'' (lower x) then ''DTL''
      else if sublist ''online'' (lower x) then ''Online''
      else ''Unknown'')"
    by (simp only: detect_mode_def Let_def str_in_sublist)
  have raw: "sublist ''distance'' x \<Longrightarrow> sublist ''distance'' (lower x)"
    using sublist_lower [of "''distance''" x] by (simp only: lower_distance)
  show ?thesis
    using eq raw by auto
qed

theorem detect_mode_ordered_total_witness:
  "sublist ''distance'' (lower ''BA_Distance_DTL.csv'')
   \<and> sublist ''dtl'' (lower ''BA_Distance_DTL.csv'')
   \<and> detect_mode ''BA_Distance_DTL.csv'' = ''Distance''
   \<and> sublist ''distance'' ''mba-dtl-distance.xlsx''
   \<and> sublist ''dtl'' ''mba-dtl-distance.xlsx''
   \<and> detect_mode ''mba-dtl-distance.xlsx'' = ''Distance''"
proof -
  have a: "sublist ''distance'' (lower ''BA_Distance_DTL.csv'')"
    by (simp add: str_in_sublist [symmetric] lower_def lower_char_def)
  have b: "sublist ''dtl'' (lower ''BA_Distance_DTL.csv'')"
    by (simp add: str_in_sublist [symmetric] lower_def lower_char_def)
  have c: "sublist ''distance'' ''mba-dtl-distance.xlsx''"
    by (simp add: str_in_sublist [symmetric])
  have d: "sublist ''dtl'' ''mba-dtl-distance.xlsx''"
    by (simp add: str_in_sublist [symmetric])
  show ?thesis
    using detect_mode_ordered_total [of "''BA_Distance_DTL.csv''"]
      detect_mode_ordered_total [of "''mba-dtl-distance.xlsx''"] a b c d
    by blast
qed

lemma detect_mode_examples:
  "detect_mode ''MBA DTL 2025.xlsx'' = ''DTL''"
  "detect_mode ''bca_ONLINE.csv'' = ''Online''"
  "detect_mode ''feedback.csv'' = ''Unknown''"
  by (simp_all add: detect_mode_def lower_def lower_char_def)

subsection \<open>The subject block\<close>

lemma notna_sum_pos:
  "0 < notna_sum (safe_num parse (getcol df c)) \<longleftrightarrow> has_numeric parse df c"
  by (auto simp: notna_sum_def safe_num_def getcol_def has_numeric_def list_ex_iff
      filter_empty_conv)

lemma subject_scan_takeWhile:
  "subject_scan parse df acc cs = acc @ takeWhile (has_numeric parse df) cs"
  by (induction cs arbitrary: acc) (simp_all add: notna_sum_pos)

lemma get_loc_first: "a \<notin> set pre \<Longrightarrow> get_loc (pre @ a # post) a = length pre"
  by (induction pre) (auto simp: get_loc_def)

lemma subject_cols_after:
  assumes "columns df = pre @ a # post" "a \<notin> set pre"
  shows "subject_cols parse df a = takeWhile (has_numeric parse df) post"
  using assms by (simp add: subject_cols_def subject_scan_takeWhile get_loc_first)

lemma named_subject_example_columns:
  "columns named_subject_example =
     [''name''] @ [''delivery of lecture'', ''unnamed: 2'', ''unnamed: 3'', ''unnamed: 4'',
       ''unnamed: 5'']"
  by (simp add: named_subject_example_def)

lemma named_subject_example_numeric:
  "has_numeric example_parse named_subject_example ''unnamed: 2''"
  "has_numeric example_parse named_subject_example ''unnamed: 3''"
  "\<not> has_numeric example_parse named_subject_example ''unnamed: 4''"
  "has_numeric example_parse named_subject_example ''unnamed: 5''"
  by (simp_all add: has_numeric_def named_subject_example_def mk_row_def example_parse_def)

text \<open>
  Claim C1. The subject block is found by scanning the columns that follow the anchor, in
  their order: a column with at least one value that coerces to a number is taken, and the
  first column with none ends the scan, which leaves out that column and every later one.
  So when the columns are those of \<open>pre\<close>, then the anchor, then those of \<open>post\<close>, the
  block is the longest initial run of \<open>post\<close> whose columns have a number: it starts at
  the column right after the anchor, wherever the anchor stands. For the columns A
  (anchor), B and C (with numbers), D (without) and E the block is B, C, whatever E holds.
\<close>

theorem subject_block_detection:
  "(columns df = pre @ a # post \<and> a \<notin> set pre \<longrightarrow>
      subject_cols parse df a = takeWhile (has_numeric parse df) post
      \<and> (\<exists>rest. post = subject_cols parse df a @ rest
            \<and> list_all (has_numeric parse df) (subject_cols parse df a)
            \<and> (rest = [] \<or> (\<exists>d ds. rest = d # ds \<and> \<not> has_numeric parse df d))))
   \<and> (columns df = pre @ [a, b, c, d, e] \<and> a \<notin> set pre
        \<and> has_numeric parse df b \<and> has_numeric parse df c \<and> \<not> has_numeric parse df d
      \<longrightarrow> subject_cols parse df a = [b, c])"
proof -
  have 1: "subject_cols parse df a = takeWhile (has_numeric parse df) post
      \<and> (\<exists>rest. post = subject_cols parse df a @ rest
            \<and> list_all (has_numeric parse df) (subject_cols parse df a)
            \<and> (rest = [] \<or> (\<exists>d ds. rest = d # ds \<and> \<not> has_numeric parse df d)))"
    if h: "columns df = pre @ a # post" "a \<notin> set pre"
  proof -
    have s: "subject_cols parse df a = takeWhile (has_numeric parse df) post"
      using h by (rule subject_cols_after)
    have p: "post = takeWhile (has_numeric parse df) post @ dropWhile (has_numeric parse df) post"
      by simp
    have t: "list_all (has_numeric parse df) (takeWhile (has_numeric parse df) post)"
      by (simp add: list_all_iff) (meson set_takeWhileD)
    have d: "dropWhile (has_numeric parse df) post = []
        \<or> (\<exists>d ds. dropWhile (has_numeric parse df) post = d # ds \<and> \<not> has_numeric parse df d)"
    proof (cases "dropWhile (has_numeric parse df) post")
      case Nil
      then show ?thesis by simp
    next
      case (Cons d ds)
      then have "\<not> has_numeric parse df d"
        using hd_dropWhile [of "has_numeric parse df" post] by simp
      with Cons show ?thesis by simp
    qed
    show ?thesis
      unfolding s using p t d by blast
  qed
  have 2: "subject_cols parse df a = [b, c]"
    if "columns df = pre @ [a, b, c, d, e]" "a \<notin> set pre"
      "has_numeric parse df b" "has_numeric parse df c" "\<not> has_numeric parse df d"
    using that subject_cols_after [of df pre a "[b, c, d, e]" parse] by simp
  show ?thesis using 1 2 by blast
qed

theorem subject_block_detection_witness:
  "columns named_subject_example =
     [''name''] @ [''delivery of lecture'', ''unnamed: 2'', ''unnamed: 3'', ''unnamed: 4'',
       ''unnamed: 5'']
   \<and> ''delivery of lecture'' \<notin> set [''name'']
   \<and> has_numeric example_parse named_subject_example ''unnamed: 2''
   \<and> has_numeric example_parse named_subject_example ''unnamed: 3''
   \<and> \<not> has_numeric example_parse named_subject_example ''unnamed: 4''
   \<and> has_numeric example_parse named_subject_example ''unnamed: 5''
   \<and> subject_cols example_parse named_subject_example ''delivery of lecture'' =
       [''unnamed: 2'', ''unnamed: 3'']"
proof -
  have n: "''delivery of lecture'' \<notin> set [''name'']" by simp
  have "subject_cols example_parse named_subject_example ''delivery of lecture'' =
       [''unnamed: 2'', ''unnamed: 3'']"
    using subject_block_detection [of named_subject_example "[''name'']"
        "''delivery of lecture''" "[''unnamed: 2'', ''unnamed: 3'', ''unnamed: 4'', ''unnamed: 5'']"
        example_parse "''unnamed: 2''" "''unnamed: 3''" "''unnamed: 4''" "''unnamed: 5''"]
      named_subject_example_columns named_subject_example_numeric n
    by simp
  then show ?thesis
    using named_subject_example_columns named_subject_example_numeric n by simp
qed

subsection \<open>Columns with a number\<close>

lemma params_loop_filter:
  "params_loop parse df acc cs =
     acc @ map (\<lambda>c. (c, round2 (mean (safe_num parse (getcol df c)))))
             (filter (\<lambda>c. list_ex (\<lambda>k. sublist k c) param_keywords \<and> has_numeric parse df c) cs)"
  by (induction cs arbitrary: acc) (simp_all add: notna_sum_pos str_in_sublist Let_def)

lemma has_numeric_iff:
  "has_numeric parse df c \<longleftrightarrow> (\<exists>r \<in> set (rows df). \<exists>q. to_numeric parse (r c) = Some q)"
  by (auto simp: has_numeric_def list_ex_iff)

lemma coerces_to_iff:
  "coerces_to parse df c v \<longleftrightarrow> Some v \<in> set (safe_num parse (getcol df c))"
  by (force simp: coerces_to_def list_ex_iff safe_num_def getcol_def intro: rev_image_eqI)

lemma set_present: "set (present s) = {v. Some v \<in> set s}"
  by (induction s) (auto simp: present_def split: option.splits)



subsection \<open>The mean of a series\<close>

lemma fsum_cases:
  "fsum vs =
     (if PInf \<in> set vs then (if NInf \<in> set vs then None else Some PInf)
      else if NInf \<in> set vs then Some NInf
      else Some (Fin (sum_list (map fin_value vs))))"
proof (induction vs)
  case Nil
  show ?case by simp
next
  case (Cons v vs)
  then show ?case by (cases v) auto
qed

lemma fdiv_sum:
  "PInf \<notin> set vs \<Longrightarrow> NInf \<notin> set vs \<Longrightarrow>
   map_option (\<lambda>t. fdiv t n) (fsum vs) = Some (Fin (sum_list (map fin_value vs) / of_nat n))"
  by (simp add: fsum_cases)

lemma mean_arith: "mean s = arith_mean (present s)"
  by (simp add: mean_def arith_mean_def Let_def fsum_cases)

lemma arith_mean_None:
  "arith_mean vs = None \<longleftrightarrow> vs = [] \<or> (PInf \<in> set vs \<and> NInf \<in> set vs)"
  by (simp add: arith_mean_def)




subsection \<open>The rows of the subject-wise section\<close>

lemma iloc0_name:
  "iloc0 (map (astype_str repr) (dropna (getcol df c))) =
     (if dropna (getcol df c) = [] then Inl IndexError else Inr (subject_name repr df c))"
  by (cases "dropna (getcol df c)") (simp_all add: subject_name_def)

lemma subject_rows_map:
  "subject_rows parse repr df acc cs =
     (if list_all (\<lambda>c. dropna (getcol df c) \<noteq> []) cs
      then Inr (acc @ map (\<lambda>c. (subject_name repr df c, round2 (mean (safe_num parse (getcol df c))))) cs)
      else Inl IndexError)"
proof (induction cs arbitrary: acc)
  case Nil
  show ?case by simp
next
  case (Cons c cs)
  show ?case
  proof (cases "dropna (getcol df c) = []")
    case True
    then show ?thesis by (simp add: iloc0_name)
  next
    case False
    then show ?thesis
      using Cons.IH [of "acc @ [(subject_name repr df c, round2 (mean (safe_num parse (getcol df c))))]"]
      by (simp add: iloc0_name Let_def)
  qed
qed


lemma find_anchor:
  "find (\<lambda>c. str_in dl c) cols = Some a \<longleftrightarrow>
     (\<exists>pre post. cols = pre @ a # post \<and> sublist dl a \<and> \<not> list_ex (sublist dl) pre)"
proof
  assume "find (\<lambda>c. str_in dl c) cols = Some a"
  then obtain i where i: "i < length cols" "sublist dl (cols ! i)" "a = cols ! i"
      "\<forall>j<i. \<not> sublist dl (cols ! j)"
    by (auto simp: find_Some_iff str_in_sublist)
  have "cols = take i cols @ a # drop (Suc i) cols"
    using i by (simp add: id_take_nth_drop)
  moreover have "\<not> list_ex (sublist dl) (take i cols)"
    using i by (auto simp: list_ex_iff in_set_conv_nth)
  ultimately show "\<exists>pre post. cols = pre @ a # post \<and> sublist dl a \<and> \<not> list_ex (sublist dl) pre"
    using i by blast
next
  assume "\<exists>pre post. cols = pre @ a # post \<and> sublist dl a \<and> \<not> list_ex (sublist dl) pre"
  then obtain pre post where "cols = pre @ a # post" "sublist dl a" "\<not> list_ex (sublist dl) pre"
    by blast
  then show "find (\<lambda>c. str_in dl c) cols = Some a"
    by (induction pre arbitrary: cols) (simp_all add: str_in_sublist)
qed

lemma subject_cols_split:
  assumes "columns df = pre @ a # post" "sublist dl a" "\<not> list_ex (sublist dl) pre"
  shows "subject_cols parse df a = takeWhile (has_numeric parse df) post"
proof -
  have "a \<notin> set pre" using assms by (auto simp: list_ex_iff)
  with assms(1) show ?thesis by (rule subject_cols_after)
qed

lemma find_anchor_None:
  "find (\<lambda>c. str_in dl c) cols = None \<longleftrightarrow> \<not> list_ex (sublist dl) cols"
  by (auto simp: find_None_iff str_in_sublist list_ex_iff)

lemma subject_wise_Some:
  assumes "find (\<lambda>c. str_in dl c) (columns df) = Some a"
  shows "subject_wise parse repr df =
     (if subject_cols parse df a = [] then Inl EmptySubjectBlock
      else if list_all (\<lambda>c. dropna (getcol df c) \<noteq> []) (subject_cols parse df a)
      then Inr (map (\<lambda>c. (subject_name repr df c, round2 (mean (safe_num parse (getcol df c)))))
                  (subject_cols parse df a))
      else Inl IndexError)"
  using assms subject_rows_map [of parse repr df "[]" "subject_cols parse df a"]
  by (simp add: subject_wise_def Let_def)

subsection \<open>The anchor and the errors of the subject-wise section\<close>

text \<open>
  Claim C7. The anchor is the first column identifier, in the order of the table, that
  contains \<open>delivery of lecture\<close>. The subject-wise section (and the file-wise section)
  signals the missing anchor exactly when no identifier contains that text. With the anchor
  found, the section signals the empty subject block exactly when the detected block is
  empty, which is the case in particular when no column after the anchor has a value that
  coerces to a number. In both cases the result is the error alone, with no rows.
\<close>

theorem subject_section_errors:
  "(subject_wise parse repr df = Inl MissingAnchor \<longleftrightarrow> \<not> list_ex (sublist dl) (columns df))
   \<and> (delivery_of_lecture parse df = Inl MissingAnchor \<longleftrightarrow> \<not> list_ex (sublist dl) (columns df))
   \<and> (columns df = pre @ a # post \<and> sublist dl a \<and> \<not> list_ex (sublist dl) pre \<longrightarrow>
        find (\<lambda>c. str_in dl c) (columns df) = Some a
        \<and> subject_cols parse df a = takeWhile (has_numeric parse df) post
        \<and> (subject_wise parse repr df = Inl EmptySubjectBlock \<longleftrightarrow> subject_cols parse df a = [])
        \<and> (\<not> list_ex (has_numeric parse df) post \<longrightarrow> subject_wise parse repr df = Inl EmptySubjectBlock))
   \<and> (subject_wise parse repr df = Inl MissingAnchor \<or> subject_wise parse repr df = Inl EmptySubjectBlock
        \<longrightarrow> (\<forall>rws. subject_wise parse repr df \<noteq> Inr rws))"
proof -
  have 1: "subject_wise parse repr df = Inl MissingAnchor \<longleftrightarrow> \<not> list_ex (sublist dl) (columns df)"
  proof (cases "find (\<lambda>c. str_in dl c) (columns df)")
    case None
    then show ?thesis
      using find_anchor_None [of "columns df"] by (simp add: subject_wise_def)
  next
    case (Some a)
    then show ?thesis
      using find_anchor_None [of "columns df"] subject_wise_Some [OF Some, of parse repr]
      by auto
  qed
  have 2: "delivery_of_lecture parse df = Inl MissingAnchor \<longleftrightarrow> \<not> list_ex (sublist dl) (columns df)"
    using find_anchor_None [of "columns df"]
    by (cases "find (\<lambda>c. str_in dl c) (columns df)") (auto simp: delivery_of_lecture_def)
  have 3: "find (\<lambda>c. str_in dl c) (columns df) = Some a
        \<and> subject_cols parse df a = takeWhile (has_numeric parse df) post
        \<and> (subject_wise parse repr df = Inl EmptySubjectBlock \<longleftrightarrow> subject_cols parse df a = [])
        \<and> (\<not> list_ex (has_numeric parse df) post \<longrightarrow> subject_wise parse repr df = Inl EmptySubjectBlock)"
    if h: "columns df = pre @ a # post" "sublist dl a" "\<not> list_ex (sublist dl) pre"
  proof -
    have f: "find (\<lambda>c. str_in dl c) (columns df) = Some a"
      using h find_anchor [of "columns df" a] by blast
    have s: "subject_cols parse df a = takeWhile (has_numeric parse df) post"
      using h by (rule subject_cols_split)
    have e: "subject_wise parse repr df = Inl EmptySubjectBlock \<longleftrightarrow> subject_cols parse df a = []"
      using subject_wise_Some [OF f, of parse repr] by simp
    have n: "takeWhile (has_numeric parse df) post = []" if "\<not> list_ex (has_numeric parse df) post"
      using that by (cases post) (simp_all add: list_ex_iff)
    show ?thesis using f s e n by simp
  qed
  show ?thesis using 1 2 3 by auto
qed

lemma sublist_dl_refl: "sublist dl dl"
  by simp

lemma master_example_no_anchor: "\<not> list_ex (sublist dl) (columns master_example)"
  by (simp add: master_example_def str_in_sublist [symmetric])

lemma gap_example_facts:
  "columns gap_example = [] @ dl # [''remarks'', ''score'']"
  "\<not> has_numeric example_parse gap_example ''remarks''"
  "has_numeric example_parse gap_example ''score''"
  by (simp_all add: gap_example_def has_numeric_def mk_row_def example_parse_def)

lemma remarks_example_facts:
  "columns remarks_example = [] @ dl # [''remarks'']"
  "\<not> list_ex (has_numeric example_parse remarks_example) [''remarks'']"
  by (simp_all add: remarks_example_def has_numeric_def mk_row_def example_parse_def)

theorem subject_section_errors_witness:
  "\<not> list_ex (sublist dl) (columns master_example)
   \<and> subject_wise example_parse example_repr master_example = Inl MissingAnchor
   \<and> delivery_of_lecture example_parse master_example = Inl MissingAnchor
   \<and> columns gap_example = [] @ dl # [''remarks'', ''score'']
   \<and> has_numeric example_parse gap_example ''score''
   \<and> subject_cols example_parse gap_example dl = []
   \<and> subject_wise example_parse example_repr gap_example = Inl EmptySubjectBlock
   \<and> columns remarks_example = [] @ dl # [''remarks'']
   \<and> subject_wise example_parse example_repr remarks_example = Inl EmptySubjectBlock"
proof -
  note a = subject_section_errors [where parse = example_parse and repr = example_repr
      and df = master_example]
  note b = subject_section_errors [where parse = example_parse and repr = example_repr
      and df = gap_example and pre = "[]" and a = dl and post = "[''remarks'', ''score'']"]
  note c = subject_section_errors [where parse = example_parse and repr = example_repr
      and df = remarks_example and pre = "[]" and a = dl and post = "[''remarks'']"]
  have 1: "subject_wise example_parse example_repr master_example = Inl MissingAnchor"
    "delivery_of_lecture example_parse master_example = Inl MissingAnchor"
    using a master_example_no_anchor by blast+
  have "subject_cols example_parse gap_example dl
      = takeWhile (has_numeric example_parse gap_example) [''remarks'', ''score'']"
    using b gap_example_facts(1) sublist_dl_refl by simp
  then have 2: "subject_cols example_parse gap_example dl = []"
    using gap_example_facts(2) by simp
  have 3: "subject_wise example_parse example_repr gap_example = Inl EmptySubjectBlock"
    using b gap_example_facts(1) sublist_dl_refl 2 by simp
  have 4: "subject_wise example_parse example_repr remarks_example = Inl EmptySubjectBlock"
    using c remarks_example_facts sublist_dl_refl by simp
  show ?thesis
    using 1 2 3 4 master_example_no_anchor gap_example_facts remarks_example_facts by blast
qed

subsection \<open>Display names of the subject columns\<close>

lemma has_numeric_dropna:
  assumes "has_numeric parse df c" "NaT \<notin> set (getcol df c)"
  shows "dropna (getcol df c) \<noteq> []"
proof -
  from assms(1) obtain r q where r: "r \<in> set (rows df)" and q: "to_numeric parse (r c) = Some q"
    by (auto simp: has_numeric_iff)
  from r have "r c \<in> set (getcol df c)" by (simp add: getcol_def)
  with assms(2) have "r c \<noteq> NaT" by auto
  with q have "\<not> isna (r c)" by (cases "r c") auto
  with r have "r c \<in> set (dropna (getcol df c))"
    by (simp add: dropna_def getcol_def)
  then show ?thesis by auto
qed

lemma date_table_loaded:
  "data example_repr [upload_visits, upload_plain] = Some (Inr date_table)"
  by (simp add: data_def date_table_def labels_def upload_visits_def upload_plain_def
      normalize_def astype_str_def strip_def is_space_def lower_def lower_char_def)

lemma date_filtered_columns:
  "columns date_filtered = [''delivery of lecture'', ''visit'', ''source_file'', ''mode'']"
  by code_simp

lemma date_filtered_visit: "getcol date_filtered ''visit'' = [NaT, NaT]"
  by code_simp

lemma date_filtered_origin:
  "getcol date_filtered ''source_file'' = [Txt ''ba_distance.xlsx'', Txt ''ba_distance.xlsx'']"
  by code_simp

lemma date_filtered_block:
  "subject_cols example_parse date_filtered ''delivery of lecture'' = [''visit'']"
  by code_simp

text \<open>
  Claim C9. The claim is that taking the first value that is not missing always succeeds
  for a column of the subject block, because one of its values coerces to a number. This
  holds for every column without a missing timestamp (lemma \<open>has_numeric_dropna\<close>). It
  fails on a column of dates: \<^verbatim>\<open>pd.to_numeric\<close> turns a missing timestamp into a number,
  so a column whose cells are all missing timestamps enters the block, while dropping
  its missing values leaves nothing. Two spreadsheets are uploaded, the first with a
  column of dates after the anchor, the second without that column, and the sidebar
  selects the second: the unified table exists, the column of dates is the subject
  block, and the subject-wise section ends with \<^verbatim>\<open>IndexError\<close>.
\<close>

theorem subject_name_index_error:
  "data example_repr [upload_visits, upload_plain] = Some (Inr date_table)
   \<and> date_filtered = filtered [''Distance''] [''ba_distance.xlsx''] date_table
   \<and> columns date_filtered = [''delivery of lecture'', ''visit'', ''source_file'', ''mode'']
   \<and> getcol date_filtered ''source_file'' = [Txt ''ba_distance.xlsx'', Txt ''ba_distance.xlsx'']
   \<and> getcol date_filtered ''visit'' = [NaT, NaT]
   \<and> subject_cols example_parse date_filtered ''delivery of lecture'' = [''visit'']
   \<and> has_numeric example_parse date_filtered ''visit''
   \<and> dropna (getcol date_filtered ''visit'') = []
   \<and> subject_wise example_parse example_repr date_filtered = Inl IndexError"
proof -
  have n: "has_numeric example_parse date_filtered ''visit''"
    by code_simp
  have d: "dropna (getcol date_filtered ''visit'') = []"
    by (simp add: date_filtered_visit dropna_def)
  have f: "find (\<lambda>c. str_in dl c) (columns date_filtered) = Some dl"
    by (simp add: date_filtered_columns)
  have e: "subject_wise example_parse example_repr date_filtered = Inl IndexError"
    using subject_wise_Some [OF f, of example_parse example_repr]
    by (simp add: date_filtered_block d)
  show ?thesis
    by (intro conjI) (fact date_table_loaded date_filtered_def date_filtered_columns
        date_filtered_origin date_filtered_visit date_filtered_block n d e)+
qed

subsection \<open>Averages of the emitted rows\<close>








lemma master_example_result:
  "master_dashboard example_parse master_example
     = [(''ease of admission'', Some (Fin (7 / 2))), (''quality of material'', Some (Fin (9 / 2)))]"
  by code_simp




subsection \<open>Parameter columns\<close>

text \<open>
  Claim C5. The master dashboard lists, in the order of the table, exactly the columns
  whose identifier contains one of the seven keywords and that have at least one value
  that coerces to a number, each with the mean of its values that coerce (rounded to two
  decimals). A column whose identifier matches but that has no such value gets no row.
\<close>

theorem parameter_columns:
  "master_dashboard parse df =
     map (\<lambda>c. (c, round2 (mean (safe_num parse (getcol df c)))))
       (filter (\<lambda>c. (\<exists>k \<in> set param_keywords. sublist k c) \<and> has_numeric parse df c) (columns df))
   \<and> (c \<in> fst ` set (master_dashboard parse df) \<longleftrightarrow>
        c \<in> set (columns df) \<and> (\<exists>k \<in> set param_keywords. sublist k c) \<and> has_numeric parse df c)
   \<and> (c \<in> set (columns df) \<and> (\<exists>k \<in> set param_keywords. sublist k c) \<and> \<not> has_numeric parse df c
        \<longrightarrow> c \<notin> fst ` set (master_dashboard parse df))"
  by (auto simp: master_dashboard_def params_loop_filter list_ex_iff image_iff)

theorem parameter_columns_witness:
  "''student support'' \<in> set (columns master_example)
   \<and> sublist ''support'' ''student support''
   \<and> \<not> has_numeric example_parse master_example ''student support''
   \<and> ''student support'' \<notin> fst ` set (master_dashboard example_parse master_example)
   \<and> master_dashboard example_parse master_example
       = [(''ease of admission'', Some (Fin (7 / 2))), (''quality of material'', Some (Fin (9 / 2)))]"
proof -
  have a: "''student support'' \<in> set (columns master_example)"
    by (simp add: master_example_def)
  have b: "sublist ''support'' ''student support''"
    by (simp add: str_in_sublist [symmetric])
  have c: "\<not> has_numeric example_parse master_example ''student support''"
    by (simp add: has_numeric_def master_example_def mk_row_def example_parse_def)
  have k: "''support'' \<in> set param_keywords"
    by (simp add: param_keywords_def)
  have "''student support'' \<notin> fst ` set (master_dashboard example_parse master_example)"
    using parameter_columns [where parse = example_parse and df = master_example
        and c = "''student support''"] a b c k by blast
  then show ?thesis
    using a b c master_example_result by blast
qed

subsection \<open>The overall average\<close>

lemma present_filter: "present (filter (\<lambda>v. v \<noteq> None) s) = present s"
  by (induction s) (auto simp: present_def)

lemma present_append: "present (xs @ ys) = present xs @ present ys"
  by (simp add: present_def)

lemma present_concat: "present (concat xss) = concat (map present xss)"
  by (induction xss) (simp_all add: present_append, simp add: present_def)

lemma mset_concat_swap:
  "mset (concat (map (\<lambda>r. concat (map (\<lambda>c. g r c) cs)) rs)) =
   mset (concat (map (\<lambda>c. concat (map (\<lambda>r. g r c) rs)) cs))"
proof (induction rs)
  case Nil
  show ?case by (induction cs) simp_all
next
  case (Cons r rs)
  have "mset (concat (map (\<lambda>c. g r c @ concat (map (\<lambda>r. g r c) rs)) cs)) =
        mset (concat (map (g r) cs)) + mset (concat (map (\<lambda>c. concat (map (\<lambda>r. g r c) rs)) cs))"
    by (induction cs) simp_all
  with Cons show ?case by simp
qed

lemma present_map: "present (map f xs) = concat (map (\<lambda>x. present [f x]) xs)"
  by (induction xs) (simp_all add: present_def)

lemma stack_pool:
  "mset (present (stack (apply_safe_num parse (rating_cols df) df))) = mset (rating_pool parse df)"
proof -
  have a: "present (stack (apply_safe_num parse (rating_cols df) df)) =
        concat (map (\<lambda>r. concat (map (\<lambda>c. present [to_numeric parse (r c)]) (rating_cols df))) (rows df))"
    unfolding stack_def apply_safe_num_def present_filter
    by (simp add: present_concat present_map comp_def)
  have b: "rating_pool parse df =
        concat (map (\<lambda>c. concat (map (\<lambda>r. present [to_numeric parse (r c)]) (rows df))) (rating_cols df))"
    by (simp add: rating_pool_def safe_num_def getcol_def present_map comp_def)
  show ?thesis
    unfolding a b by (rule mset_concat_swap)
qed

lemma arith_mean_mset:
  assumes h: "mset xs = mset ys"
  shows "arith_mean xs = arith_mean ys"
proof -
  have "mset (map fin_value xs) = mset (map fin_value ys)" using h by simp
  then have "sum_mset (mset (map fin_value xs)) = sum_mset (mset (map fin_value ys))" by simp
  then have s: "sum_list (map fin_value xs) = sum_list (map fin_value ys)"
    by (simp only: sum_mset_sum_list)
  from h have l: "length xs = length ys" by (rule mset_eq_length)
  from l have e: "xs = [] \<longleftrightarrow> ys = []" by auto
  from h have m: "set xs = set ys" by (rule mset_eq_setD)
  show ?thesis by (simp add: arith_mean_def s l e m)
qed

lemma present_comprehension:
  "present (map f rs) = [v. r \<leftarrow> rs, Some v \<leftarrow> [f r]]"
  by (induction rs) (simp_all add: present_def)

lemma overall_avg_pool: "overall_avg parse df = arith_mean (rating_pool parse df)"
  unfolding overall_avg_def mean_arith by (rule arith_mean_mset) (rule stack_pool)

lemma rating_pool_cells:
  "rating_pool parse df =
     concat (map (\<lambda>c. [v. r \<leftarrow> rows df, Some v \<leftarrow> [to_numeric parse (r c)]])
              (filter (\<lambda>c. sublist ''rate'' c \<or> sublist ''rating'' c) (columns df)))"
  by (simp add: rating_pool_def rating_cols_def str_in_sublist safe_num_def getcol_def comp_def
      present_comprehension)

lemma set_rating_pool:
  "set (rating_pool parse df) =
     {v. \<exists>c \<in> set (rating_cols df). \<exists>r \<in> set (rows df). to_numeric parse (r c) = Some v}"
  by (auto simp: rating_pool_def set_present coerces_to_iff [symmetric] coerces_to_def list_ex_iff)

text \<open>Rounding to the nearest integer moves a number by one half at most.\<close>

lemma rint_near: "\<bar>of_int (rint q) - q\<bar> \<le> 1 / 2"
proof -
  define f where "f = \<lfloor>q\<rfloor>"
  have a: "of_int f \<le> q" and b: "q < of_int f + 1"
    unfolding f_def by linarith+
  show ?thesis
    unfolding rint_def Let_def f_def [symmetric]
    using a b by (auto simp: abs_if)
qed

lemma round2_near:
  "\<exists>k. round2 (Some (Fin m)) = Some (Fin (of_int k / 100)) \<and> \<bar>of_int k / 100 - m\<bar> \<le> 1 / 200"
proof -
  have "\<bar>of_int (rint (m * 100)) - m * 100\<bar> \<le> 1 / 2" by (rule rint_near)
  then have "\<bar>of_int (rint (m * 100)) / 100 - m\<bar> \<le> 1 / 200"
    by (simp add: abs_if field_simps split: if_splits)
  then show ?thesis
    by (auto simp: round2_def)
qed

lemma thirds_example_mean:
  "arith_mean (rating_pool example_parse thirds_example) = Some (Fin (4 / 3))"
  by code_simp

lemma thirds_example_reported:
  "snd (overview example_parse thirds_example) = Some (Fin (133 / 100))"
  by code_simp

text \<open>
  Claim C3, as stated, fails: the overall average that is reported is rounded to two
  decimals. For the ratings 1, 1 and 2 the mean of the pool is 4/3 and the reported
  average is 1.33.
\<close>

theorem reported_average_rounded:
  "arith_mean (rating_pool example_parse thirds_example) = Some (Fin (4 / 3))
   \<and> snd (overview example_parse thirds_example) = Some (Fin (133 / 100))
   \<and> snd (overview example_parse thirds_example)
       \<noteq> arith_mean (rating_pool example_parse thirds_example)"
  by (simp add: thirds_example_mean thirds_example_reported)

text \<open>
  Claim C3, amended. The overall average that is computed is the arithmetic mean of the
  pool, and the overall average that is reported is this mean rounded to two decimals, so
  a multiple of 1/100 within 1/200 of a finite mean. The pool holds, for every rating
  column (an identifier that contains \<open>rate\<close> or \<open>rating\<close>) and every row, the value of
  the cell if the cell coerces to a number: a number cell enters the pool with its value,
  a missing cell does not enter it, and a cell that does not enter it counts neither in the
  sum nor in the number of values. The number of responses that is reported is the number
  of rows of the table, whatever the size of the pool.
\<close>

theorem overall_average:
  "overall_avg parse df = arith_mean (rating_pool parse df)
   \<and> snd (overview parse df) = round2 (arith_mean (rating_pool parse df))
   \<and> (arith_mean (rating_pool parse df) = Some (Fin m) \<longrightarrow>
        (\<exists>k. snd (overview parse df) = Some (Fin (of_int k / 100))
           \<and> \<bar>of_int k / 100 - m\<bar> \<le> 1 / 200))
   \<and> rating_pool parse df =
       concat (map (\<lambda>c. [v. r \<leftarrow> rows df, Some v \<leftarrow> [to_numeric parse (r c)]])
                (filter (\<lambda>c. sublist ''rate'' c \<or> sublist ''rating'' c) (columns df)))
   \<and> (c \<in> set (columns df) \<and> (sublist ''rate'' c \<or> sublist ''rating'' c)
        \<and> r \<in> set (rows df) \<and> r c = Num q \<longrightarrow> Fin q \<in> set (rating_pool parse df))
   \<and> ((\<forall>c \<in> set (rating_cols df). \<forall>r \<in> set (rows df). r c = NA) \<longrightarrow>
        rating_pool parse df = [] \<and> overall_avg parse df = None)
   \<and> fst (overview parse df) = length (rows df)"
proof -
  note 1 = overall_avg_pool [of parse df]
  have 2: "snd (overview parse df) = round2 (arith_mean (rating_pool parse df))"
    by (simp add: overview_def 1)
  have 3: "\<exists>k. snd (overview parse df) = Some (Fin (of_int k / 100))
           \<and> \<bar>of_int k / 100 - m\<bar> \<le> 1 / 200"
    if "arith_mean (rating_pool parse df) = Some (Fin m)"
    using that round2_near [of m] by (simp add: 2)
  note 4 = rating_pool_cells [of parse df]
  have 5: "Fin q \<in> set (rating_pool parse df)"
    if "c \<in> set (columns df)" "sublist ''rate'' c \<or> sublist ''rating'' c"
      "r \<in> set (rows df)" "r c = Num q"
  proof -
    from that(1,2) have "c \<in> set (rating_cols df)"
      by (simp add: rating_cols_def str_in_sublist)
    moreover from that(4) have "to_numeric parse (r c) = Some (Fin q)" by simp
    ultimately show ?thesis using that(3) by (auto simp: set_rating_pool)
  qed
  have 6: "rating_pool parse df = [] \<and> overall_avg parse df = None"
    if h: "\<forall>c \<in> set (rating_cols df). \<forall>r \<in> set (rows df). r c = NA"
  proof -
    have "to_numeric parse (r c) = None"
      if "c \<in> set (rating_cols df)" "r \<in> set (rows df)" for c r
    proof -
      from h that have "r c = NA" by blast
      then show ?thesis by simp
    qed
    then have "set (rating_pool parse df) = {}"
      by (auto simp: set_rating_pool)
    then have "rating_pool parse df = []" by simp
    then show ?thesis by (simp add: 1 arith_mean_def)
  qed
  have 7: "fst (overview parse df) = length (rows df)"
    by (simp add: overview_def len_def)
  show ?thesis
    using 1 2 3 4 5 6 7 by blast
qed

lemma overview_example_pool:
  "rating_pool example_parse overview_example = [Fin 4, Fin 3, Fin 5, Fin 3]"
  by code_simp

lemma overview_example_stack:
  "present (stack (apply_safe_num example_parse (rating_cols overview_example) overview_example))
     = [Fin 4, Fin 5, Fin 3, Fin 3]"
  by code_simp

lemma overview_example_result:
  "overview example_parse overview_example = (3, Some (Fin (15 / 4)))"
  by code_simp

lemma blank_rating_example_cols: "rating_cols blank_rating_example = [''rating'']"
  by code_simp

theorem overall_average_witness:
  "''rate the course'' \<in> set (columns overview_example)
   \<and> sublist ''rate'' ''rate the course''
   \<and> Fin 4 \<in> set (rating_pool example_parse overview_example)
   \<and> rating_pool example_parse overview_example = [Fin 4, Fin 3, Fin 5, Fin 3]
   \<and> overall_avg example_parse overview_example = Some (Fin (15 / 4))
   \<and> overview example_parse overview_example = (3, Some (Fin (15 / 4)))
   \<and> arith_mean (rating_pool example_parse thirds_example) = Some (Fin (4 / 3))
   \<and> (\<exists>k. snd (overview example_parse thirds_example) = Some (Fin (of_int k / 100))
          \<and> \<bar>of_int k / 100 - 4 / 3\<bar> \<le> (1 / 200 :: rat))
   \<and> snd (overview example_parse thirds_example) = Some (Fin (133 / 100))
   \<and> rating_cols blank_rating_example = [''rating'']
   \<and> rating_pool example_parse blank_rating_example = []
   \<and> overall_avg example_parse blank_rating_example = None
   \<and> fst (overview example_parse blank_rating_example) = 2"
proof -
  let ?cols = "[''name'', ''rate the course'', ''overall rating'', ''remarks'']"
  let ?r = "mk_row ?cols [Txt ''Asha'', Num 4, Txt ''5'', Txt ''good'']"
  note t = overall_average [of example_parse overview_example _ "''rate the course''" ?r 4]
  have a: "''rate the course'' \<in> set (columns overview_example)"
    by (simp add: overview_example_def)
  have b: "sublist ''rate'' ''rate the course''"
    by (simp add: str_in_sublist [symmetric])
  have c: "?r \<in> set (rows overview_example)"
    by (simp add: overview_example_def)
  have d: "?r ''rate the course'' = Num 4"
    by (simp add: mk_row_def)
  have 1: "Fin 4 \<in> set (rating_pool example_parse overview_example)"
    using t a b c d by blast
  have 2: "overall_avg example_parse overview_example = Some (Fin (15 / 4))"
    using t by (simp add: overview_example_pool arith_mean_def)
  have 3: "\<exists>k. snd (overview example_parse thirds_example) = Some (Fin (of_int k / 100))
          \<and> \<bar>of_int k / 100 - 4 / 3\<bar> \<le> (1 / 200 :: rat)"
    using overall_average [of example_parse thirds_example "4 / 3"] thirds_example_mean
    by blast
  have h: "\<forall>c \<in> set (rating_cols blank_rating_example). \<forall>r \<in> set (rows blank_rating_example). r c = NA"
    by (simp add: blank_rating_example_cols) (simp add: blank_rating_example_def mk_row_def)
  have 4: "rating_pool example_parse blank_rating_example = []"
    "overall_avg example_parse blank_rating_example = None"
    using overall_average [of example_parse blank_rating_example] h by blast+
  have 5: "fst (overview example_parse blank_rating_example) = 2"
    using overall_average [of example_parse blank_rating_example]
    by (simp add: blank_rating_example_def)
  show ?thesis
    by (intro conjI) (fact a b 1 2 3 4 5 overview_example_pool overview_example_result
        thirds_example_mean thirds_example_reported blank_rating_example_cols)+
qed

subsection \<open>The average per file\<close>

lemma group_present:
  "present [v. (k', v) \<leftarrow> [(f, to_numeric parse (r col)). r \<leftarrow> rs, Txt f \<leftarrow> [r ''source_file'']], k' = k]
   = [v. r \<leftarrow> rs, r ''source_file'' = Txt k, Some v \<leftarrow> [to_numeric parse (r col)]]"
proof (induction rs)
  case Nil
  show ?case by (simp add: present_def)
next
  case (Cons r rs)
  then show ?case
    by (cases "r ''source_file''") (auto simp: present_append, auto simp: present_def)
qed

lemma keys_origins:
  "map fst [(f, to_numeric parse (r col)). r \<leftarrow> rs, Txt f \<leftarrow> [r ''source_file'']]
   = [f. r \<leftarrow> rs, Txt f \<leftarrow> [r ''source_file'']]"
proof (induction rs)
  case Nil
  show ?case by simp
next
  case (Cons r rs)
  then show ?case by (cases "r ''source_file''") simp_all
qed

lemma delivery_groups:
  assumes "find (\<lambda>c. str_in dl c) (columns df) = Some col"
  shows "delivery_of_lecture parse df =
     Inr (map (\<lambda>f. (f, arith_mean (group_values parse df col f))) (sort (remdups (origins df))))"
proof -
  let ?kvs = "[(f, to_numeric parse (r col)). r \<leftarrow> rows df, Txt f \<leftarrow> [r ''source_file'']]"
  have 1: "delivery_of_lecture parse df = Inr (groupby_mean ?kvs)"
    using assms by (simp add: delivery_of_lecture_def)
  have 2: "groupby_mean ?kvs =
      map (\<lambda>k. (k, arith_mean (present [v. (k', v) \<leftarrow> ?kvs, k' = k]))) (sort (remdups (map fst ?kvs)))"
    by (simp only: groupby_mean_def mean_arith)
  have 3: "\<dots> = map (\<lambda>f. (f, arith_mean (group_values parse df col f))) (sort (remdups (origins df)))"
    by (simp only: group_present keys_origins group_values_def origins_def)
  show ?thesis
    by (simp only: 1 2 3)
qed

text \<open>
  Claim C4. With the anchor column found, the file-wise section has one row per origin, in
  ascending order, carrying the arithmetic mean of the values of that origin in the anchor
  column that coerce to a number. The mean of a group without such a value is undefined,
  not zero; it is undefined besides only for a group that holds both infinities, and for a
  group of finite numbers it is their sum over their number. Groups with the values 3, 4, 5
  and 1, 2 have the means 4 and 3/2.
\<close>

theorem per_file_average:
  "(find (\<lambda>c. str_in dl c) (columns df) = Some col \<longrightarrow>
      delivery_of_lecture parse df =
        Inr (map (\<lambda>f. (f, arith_mean (group_values parse df col f))) (sort (remdups (origins df)))))
   \<and> (arith_mean vs = None \<longleftrightarrow> vs = [] \<or> (PInf \<in> set vs \<and> NInf \<in> set vs))
   \<and> (list_all is_fin vs \<longrightarrow> (arith_mean vs = None \<longleftrightarrow> vs = []))
   \<and> (list_all is_fin vs \<and> vs \<noteq> [] \<longrightarrow>
        arith_mean vs = Some (Fin (sum_list (map fin_value vs) / of_nat (length vs))))
   \<and> (vs = [] \<longrightarrow> arith_mean vs \<noteq> Some (Fin 0))
   \<and> arith_mean [Fin 3, Fin 4, Fin 5] = Some (Fin 4)
   \<and> arith_mean [Fin 1, Fin 2] = Some (Fin (3 / 2))"
proof -
  have inf: "PInf \<notin> set vs \<and> NInf \<notin> set vs" if "list_all is_fin vs"
    using that by (auto simp: list_all_iff)
  have 1: "list_all is_fin vs \<longrightarrow> (arith_mean vs = None \<longleftrightarrow> vs = [])"
    using inf by (auto simp: arith_mean_None)
  have 2: "list_all is_fin vs \<and> vs \<noteq> [] \<longrightarrow>
        arith_mean vs = Some (Fin (sum_list (map fin_value vs) / of_nat (length vs)))"
    using inf by (auto simp: arith_mean_def)
  show ?thesis
    using delivery_groups [of df col parse] 1 2
    by (simp add: arith_mean_def)
qed

lemma delivery_example_anchor:
  "find (\<lambda>c. str_in dl c) (columns delivery_example) = Some dl"
  by (simp add: delivery_example_def)

lemma delivery_example_origins:
  "sort (remdups (origins delivery_example)) = [''ba_distance.csv'', ''bsc_dtl.csv'', ''mba_online.csv'']"
  by code_simp

lemma delivery_example_groups:
  "group_values example_parse delivery_example dl ''mba_online.csv'' = [Fin 3, Fin 4, Fin 5]"
  "group_values example_parse delivery_example dl ''ba_distance.csv'' = [Fin 1, Fin 2]"
  "group_values example_parse delivery_example dl ''bsc_dtl.csv'' = []"
  by (simp_all add: group_values_def delivery_example_def mk_row_def example_parse_def)

lemma delivery_example_result:
  "delivery_of_lecture example_parse delivery_example =
     Inr [(''ba_distance.csv'', Some (Fin (3 / 2))), (''bsc_dtl.csv'', None), (''mba_online.csv'', Some (Fin 4))]"
  by code_simp

theorem per_file_average_witness:
  "find (\<lambda>c. str_in dl c) (columns delivery_example) = Some dl
   \<and> group_values example_parse delivery_example dl ''mba_online.csv'' = [Fin 3, Fin 4, Fin 5]
   \<and> list_all is_fin [Fin 3, Fin 4, Fin 5]
   \<and> group_values example_parse delivery_example dl ''ba_distance.csv'' = [Fin 1, Fin 2]
   \<and> group_values example_parse delivery_example dl ''bsc_dtl.csv'' = []
   \<and> delivery_of_lecture example_parse delivery_example =
       Inr [(''ba_distance.csv'', Some (Fin (3 / 2))), (''bsc_dtl.csv'', None),
            (''mba_online.csv'', Some (Fin 4))]"
proof -
  have "delivery_of_lecture example_parse delivery_example =
      Inr (map (\<lambda>f. (f, arith_mean (group_values example_parse delivery_example dl f)))
        (sort (remdups (origins delivery_example))))"
    using per_file_average [of delivery_example dl example_parse] delivery_example_anchor
    by blast
  then have "delivery_of_lecture example_parse delivery_example =
       Inr [(''ba_distance.csv'', Some (Fin (3 / 2))), (''bsc_dtl.csv'', None),
            (''mba_online.csv'', Some (Fin 4))]"
    by (simp add: delivery_example_origins delivery_example_groups arith_mean_def)
  then show ?thesis
    using delivery_example_anchor delivery_example_groups by simp
qed

subsection \<open>Value counts of the learner support centre\<close>

lemma set_unique: "set (unique xs) = set xs"
  by (simp add: unique_def)

lemma distinct_unique: "distinct (unique xs)"
  by (simp add: unique_def)

lemma map_filter_map_filter:
  "map f (filter p (map g (filter q rs))) =
     concat (map (\<lambda>r. if q r then if p (g r) then [f (g r)] else [] else []) rs)"
  by (induction rs) simp_all

lemma lsc_values:
  "map (\<lambda>c. strip (astype_str repr c))
     (dropna (getcol (select_rows (\<lambda>r. r ''mode'' = Txt ''Distance'') df) lsc))
   = distance_values repr df"
  by (simp add: distance_values_def dropna_def getcol_def select_rows_def map_filter_map_filter)

lemma value_counts_set:
  "set (value_counts s) = (\<lambda>v. (v, count_list s v)) ` set s"
  by (simp add: value_counts_def set_unique)

lemma value_counts_fst: "mset (map fst (value_counts s)) = mset (unique s)"
proof -
  have "mset (value_counts s) = mset (map (\<lambda>v. (v, count_list s v)) (unique s))"
    by (simp add: value_counts_def)
  then have "mset (map fst (value_counts s)) = mset (map fst (map (\<lambda>v. (v, count_list s v)) (unique s)))"
    by (metis mset_map)
  then show ?thesis by (simp add: comp_def)
qed

lemma value_counts_distinct: "distinct (map fst (value_counts s))"
  using value_counts_fst [of s] distinct_unique [of s] by (metis mset_eq_imp_distinct_iff)

lemma value_counts_sorted: "sorted_wrt (\<lambda>m n. n \<le> m) (map snd (value_counts s))"
proof -
  have "sorted (map (\<lambda>(v, n). - int n) (value_counts s))"
    unfolding value_counts_def by (rule sorted_sort_key)
  then have "sorted_wrt (\<lambda>a b. (case a of (v, n) \<Rightarrow> - int n) \<le> (case b of (v, n) \<Rightarrow> - int n)) (value_counts s)"
    by (simp only: sorted_map)
  then have "sorted_wrt (\<lambda>a b. snd b \<le> snd a) (value_counts s)"
    by (rule sorted_wrt_mono_rel [rotated]) auto
  then show ?thesis by (simp add: sorted_wrt_map)
qed

lemma lsc_example_values:
  "distance_values example_repr lsc_example = [''X'', ''x'', ''x'', ''Y'']"
  by (simp add: distance_values_def lsc_example_def mk_row_def strip_def is_space_def)

lemma lsc_example_result:
  "learner_support_centre example_repr lsc_example = Inr [(''x'', 2), (''X'', 1), (''Y'', 1)]"
  by code_simp

text \<open>
  Claim C6. With the learner support centre column present, the counts are taken over the
  rows of mode Distance only, over the cells of that column that are not missing, each
  turned into a text and trimmed, the letter case kept: every distinct trimmed value gets
  one row with the number of its occurrences, and the rows are in descending order of the
  counts. The texts \<open>x\<close> with and without surrounding blanks are the same value; \<open>X\<close>
  and \<open>x\<close> are two values. When no value is left the section reports that, with no
  counts.
\<close>

theorem value_frequency_counts:
  "(lsc \<in> set (columns df) \<and> distance_values repr df = [] \<longrightarrow>
      learner_support_centre repr df = Inl EmptyResult)
   \<and> (lsc \<in> set (columns df) \<and> distance_values repr df \<noteq> [] \<longrightarrow>
      (\<exists>res. learner_support_centre repr df = Inr res
         \<and> set res = (\<lambda>v. (v, count_list (distance_values repr df) v)) ` set (distance_values repr df)
         \<and> distinct (map fst res)
         \<and> sorted_wrt (\<lambda>m n. n \<le> m) (map snd res)))
   \<and> strip '' x '' = strip ''x''
   \<and> strip ''X'' \<noteq> strip ''x''"
proof -
  have 1: "learner_support_centre repr df = Inl EmptyResult"
    if "lsc \<in> set (columns df)" "distance_values repr df = []"
    using that by (simp add: learner_support_centre_def lsc_values)
  have 2: "learner_support_centre repr df = Inr (value_counts (distance_values repr df))"
    if "lsc \<in> set (columns df)" "distance_values repr df \<noteq> []"
    using that by (simp add: learner_support_centre_def lsc_values)
  have 3: "strip '' x '' = strip ''x''" "strip ''X'' \<noteq> strip ''x''"
    by (simp_all add: strip_def is_space_def)
  show ?thesis
    using 1 2 3 value_counts_set value_counts_distinct value_counts_sorted by auto
qed

lemma lsc_example_column: "lsc \<in> set (columns lsc_example)"
  by (simp add: lsc_example_def)

lemma online_example_facts:
  "lsc \<in> set (columns online_example)"
  "distance_values example_repr online_example = []"
  by (simp_all add: online_example_def select_rows_def distance_values_def lsc_example_def
      mk_row_def)

theorem value_frequency_counts_witness:
  "lsc \<in> set (columns lsc_example)
   \<and> distance_values example_repr lsc_example = [''X'', ''x'', ''x'', ''Y'']
   \<and> learner_support_centre example_repr lsc_example = Inr [(''x'', 2), (''X'', 1), (''Y'', 1)]
   \<and> sorted_wrt (\<lambda>m n. n \<le> m) (map snd [(''x'', 2 :: nat), (''X'', 1), (''Y'', 1)])
   \<and> lsc \<in> set (columns online_example)
   \<and> distance_values example_repr online_example = []
   \<and> learner_support_centre example_repr online_example = Inl EmptyResult"
proof -
  note t = value_frequency_counts [of lsc_example example_repr]
  have "distance_values example_repr lsc_example \<noteq> []"
    by (simp add: lsc_example_values)
  with t lsc_example_column obtain res where
    "learner_support_centre example_repr lsc_example = Inr res"
    "sorted_wrt (\<lambda>m n. n \<le> m) (map snd res)"
    by blast
  then have s: "sorted_wrt (\<lambda>m n. n \<le> m) (map snd [(''x'', 2 :: nat), (''X'', 1), (''Y'', 1)])"
    by (simp add: lsc_example_result)
  have e: "learner_support_centre example_repr online_example = Inl EmptyResult"
    using value_frequency_counts [of online_example example_repr] online_example_facts
    by blast
  show ?thesis
    using s e lsc_example_column lsc_example_values lsc_example_result online_example_facts
    by blast
qed

subsection \<open>Normalization and concatenation\<close>

lemma columns_load_file: "columns (load_file repr f) = labels repr f"
  by (simp add: load_file_def set_column_def labels_def Let_def)

lemma rows_load_file:
  "rows (load_file repr f) =
     map (\<lambda>cells. (mk_row (map (normalize repr) (header f)) cells)(''source_file'' := Txt (name f)))
       (body f)"
  by (simp add: load_file_def set_column_def Let_def comp_def)

lemma set_labels:
  "set (labels repr f) = normalize repr ` set (header f) \<union> {''source_file''}"
  by (auto simp: labels_def Let_def)

lemma distinct_labels:
  "distinct (labels repr f) \<longleftrightarrow> distinct (map (normalize repr) (header f))"
  by (auto simp: labels_def Let_def)

lemma mk_row_nth:
  assumes "distinct cols" "i < length cols" "length cells = length cols"
  shows "mk_row cols cells (cols ! i) = cells ! i"
proof -
  have "map_of (zip cols cells) (cols ! i) = Some (cells ! i)"
    using assms by (simp add: map_of_zip_nth)
  then show ?thesis by (simp add: mk_row_def)
qed

lemma reindex_present: "c \<in> set (columns df) \<Longrightarrow> reindex dfs df r c = r c"
  by (simp add: reindex_def)

lemma origin_rows:
  "map (\<lambda>r. r ''source_file'')
     (concat (map (\<lambda>df. map (reindex dfs df) (rows df)) (map (load_file repr) files))) =
     concat (map (\<lambda>f. replicate (length (body f)) (Txt (name f))) files)"
proof (induction files)
  case Nil
  show ?case by simp
next
  case (Cons f files)
  have "''source_file'' \<in> set (columns (load_file repr f))"
    by (simp add: columns_load_file set_labels)
  then have "map (\<lambda>r. r ''source_file'') (map (reindex dfs (load_file repr f)) (rows (load_file repr f)))
      = replicate (length (body f)) (Txt (name f))"
    by (simp add: reindex_present rows_load_file comp_def map_replicate_const)
  with Cons show ?case by simp
qed

lemma data_frames:
  assumes "files \<noteq> []" "list_all (\<lambda>f. distinct (map (normalize repr) (header f))) files"
  shows "data repr files = Some (Inr (concat_frames (map (load_file repr) files)))"
  using assms by (simp add: data_def distinct_labels)

lemma data_repeated:
  assumes "files \<noteq> []" "\<not> list_all (\<lambda>f. distinct (map (normalize repr) (header f))) files"
  shows "\<exists>e. data repr files = Some (Inl e)"
  using assms by (simp add: data_def distinct_labels)

lemma collide_loaded:
  "data example_repr [upload_collide, upload_mba] = Some (Inl InvalidIndexError)"
  by (simp add: data_def labels_def upload_collide_def upload_mba_def normalize_def strip_def
      is_space_def lower_def lower_char_def)

lemma collide_alone: "data example_repr [upload_collide] = Some (Inl RepeatedIdentifiers)"
  by (simp add: data_def labels_def upload_collide_def normalize_def strip_def
      is_space_def lower_def lower_char_def)

text \<open>
  Claim C8, as stated, fails: it speaks of every set of input tables. A file with the
  identifiers \<open>Quality\<close> and \<open>quality\<close> followed by a blank has two columns under the
  identifier \<open>quality\<close> after normalization; uploaded beside a file with other columns,
  the concatenation raises and there is no unified table.
\<close>

theorem concatenation_raises:
  "map (normalize example_repr) (header upload_collide) = [''quality'', ''quality'']
   \<and> data example_repr [upload_collide, upload_mba] = Some (Inl InvalidIndexError)"
  using collide_loaded
  by (simp add: upload_collide_def normalize_def strip_def is_space_def lower_def lower_char_def)

text \<open>
  Claim C8, amended. When files are uploaded and no file has two column identifiers that
  normalize to the same text, the unified table exists. Its column identifiers are the
  identifiers of the files, each turned into a text, trimmed and put in lower case, and the
  origin column \<open>source_file\<close>; each appears once, in the order of first appearance. Its
  rows are the rows of the files in the order of the files and, within a file, in the order
  of the file, none dropped, merged or moved; the origin of every row is the name of its
  file, and a cell of a file is found in its row under the normalized identifier of its
  column. When some file has two identifiers that normalize to the same text, the loading
  stage yields no such table.
\<close>

theorem normalization_and_concatenation:
  "data repr [] = None
   \<and> (files \<noteq> [] \<and> list_all (\<lambda>f. distinct (map (normalize repr) (header f))) files \<longrightarrow>
      (\<exists>d. data repr files = Some (Inr d)
         \<and> columns d = unique (concat (map (labels repr) files))
         \<and> set (columns d) =
             (\<Union>f \<in> set files. (\<lambda>h. lower (strip (astype_str repr h))) ` set (header f))
               \<union> {''source_file''}
         \<and> distinct (columns d)
         \<and> rows d =
             concat (map (\<lambda>f. map (\<lambda>cells.
                 reindex (map (load_file repr) files) (load_file repr f)
                   ((mk_row (map (normalize repr) (header f)) cells)
                      (''source_file'' := Txt (name f)))) (body f)) files)
         \<and> map (\<lambda>r. r ''source_file'') (rows d) =
             concat (map (\<lambda>f. replicate (length (body f)) (Txt (name f))) files)
         \<and> length (rows d) = sum_list (map (\<lambda>f. length (body f)) files)))
   \<and> (distinct (map (normalize repr) (header f)) \<and> i < length (header f)
        \<and> length cells = length (header f) \<and> normalize repr (header f ! i) \<noteq> ''source_file''
      \<longrightarrow> reindex dfs (load_file repr f)
            ((mk_row (map (normalize repr) (header f)) cells)(''source_file'' := Txt (name f)))
            (normalize repr (header f ! i)) = cells ! i)
   \<and> (files \<noteq> [] \<and> \<not> list_all (\<lambda>f. distinct (map (normalize repr) (header f))) files \<longrightarrow>
        (\<exists>e. data repr files = Some (Inl e)))"
proof -
  have 1: "data repr [] = None" by (simp add: data_def)
  have 2: "\<exists>d. data repr files = Some (Inr d)
         \<and> columns d = unique (concat (map (labels repr) files))
         \<and> set (columns d) =
             (\<Union>f \<in> set files. (\<lambda>h. lower (strip (astype_str repr h))) ` set (header f))
               \<union> {''source_file''}
         \<and> distinct (columns d)
         \<and> rows d =
             concat (map (\<lambda>f. map (\<lambda>cells.
                 reindex (map (load_file repr) files) (load_file repr f)
                   ((mk_row (map (normalize repr) (header f)) cells)
                      (''source_file'' := Txt (name f)))) (body f)) files)
         \<and> map (\<lambda>r. r ''source_file'') (rows d) =
             concat (map (\<lambda>f. replicate (length (body f)) (Txt (name f))) files)
         \<and> length (rows d) = sum_list (map (\<lambda>f. length (body f)) files)"
    if ne: "files \<noteq> []"
      and di: "list_all (\<lambda>f. distinct (map (normalize repr) (header f))) files"
  proof -
    let ?dfs = "map (load_file repr) files"
    let ?d = "concat_frames ?dfs"
    have a: "data repr files = Some (Inr ?d)" using ne di by (rule data_frames)
    have b: "columns ?d = unique (concat (map (labels repr) files))"
      by (simp add: concat_frames_def comp_def columns_load_file)
    have "set (columns ?d) = (\<Union>f \<in> set files. normalize repr ` set (header f) \<union> {''source_file''})"
      by (simp add: b set_unique set_labels)
    also have "\<dots> = (\<Union>f \<in> set files. normalize repr ` set (header f)) \<union> {''source_file''}"
      using ne by auto
    finally have c: "set (columns ?d) =
        (\<Union>f \<in> set files. (\<lambda>h. lower (strip (astype_str repr h))) ` set (header f))
          \<union> {''source_file''}"
      by (simp add: normalize_def [abs_def])
    have d: "distinct (columns ?d)" by (simp add: b distinct_unique)
    have e: "rows ?d = concat (map (\<lambda>df. map (reindex ?dfs df) (rows df)) ?dfs)"
      by (simp add: concat_frames_def)
    have e': "rows ?d =
             concat (map (\<lambda>f. map (\<lambda>cells.
                 reindex ?dfs (load_file repr f)
                   ((mk_row (map (normalize repr) (header f)) cells)
                      (''source_file'' := Txt (name f)))) (body f)) files)"
      by (simp add: e rows_load_file comp_def)
    have g: "map (\<lambda>r. r ''source_file'') (rows ?d) =
             concat (map (\<lambda>f. replicate (length (body f)) (Txt (name f))) files)"
      unfolding e by (rule origin_rows)
    have h: "length (rows ?d) = sum_list (map (\<lambda>f. length (body f)) files)"
      by (simp add: e' length_concat comp_def)
    show ?thesis
      by (rule exI [of _ ?d]) (intro conjI; fact a b c d e' g h)
  qed
  have 3: "reindex dfs (load_file repr f)
            ((mk_row (map (normalize repr) (header f)) cells)(''source_file'' := Txt (name f)))
            (normalize repr (header f ! i)) = cells ! i"
    if "distinct (map (normalize repr) (header f))" "i < length (header f)"
       "length cells = length (header f)" "normalize repr (header f ! i) \<noteq> ''source_file''"
  proof -
    have "normalize repr (header f ! i) \<in> set (columns (load_file repr f))"
      using that(2) by (simp add: columns_load_file set_labels)
    then show ?thesis
      using that mk_row_nth [of "map (normalize repr) (header f)" i cells]
      by (simp add: reindex_present)
  qed
  have 4: "\<exists>e. data repr files = Some (Inl e)"
    if "files \<noteq> []" "\<not> list_all (\<lambda>f. distinct (map (normalize repr) (header f))) files"
    using that by (rule data_repeated)
  show ?thesis
    by (intro conjI impI) (use 1 2 3 4 in \<open>simp_all only: simp_thms\<close>)
qed

lemma upload_ba_header:
  "map (normalize example_repr) (header upload_ba) = [''name'', ''rate the course'']"
  by (simp add: upload_ba_def normalize_def strip_def is_space_def lower_def lower_char_def)

lemma upload_mba_header:
  "map (normalize example_repr) (header upload_mba) = [''name'', ''remarks'']"
  by (simp add: upload_mba_def normalize_def strip_def is_space_def lower_def lower_char_def)

lemma uploads_example_distinct:
  "list_all (\<lambda>f. distinct (map (normalize example_repr) (header f))) uploads_example"
  by (simp add: uploads_example_def upload_ba_header upload_mba_header)

lemma unified_example_columns:
  "columns unified_example = [''name'', ''rate the course'', ''source_file'', ''remarks'']"
  by code_simp

lemma unified_example_names:
  "map (\<lambda>r. r ''name'') (rows unified_example) = [Txt ''Asha'', Txt ''Ravi'', Txt ''Asha'', Txt ''Asha'']"
  by code_simp

lemma unified_example_remarks:
  "map (\<lambda>r. r ''remarks'') (rows unified_example) = [NA, NA, Txt ''ok'', Txt ''ok'']"
  by code_simp

theorem normalization_and_concatenation_witness:
  "uploads_example \<noteq> []
   \<and> list_all (\<lambda>f. distinct (map (normalize example_repr) (header f))) uploads_example
   \<and> data example_repr uploads_example = Some (Inr unified_example)
   \<and> columns unified_example = [''name'', ''rate the course'', ''source_file'', ''remarks'']
   \<and> map (\<lambda>r. r ''source_file'') (rows unified_example) =
       [Txt ''BA_Distance.csv'', Txt ''BA_Distance.csv'', Txt ''MBA_Online.xlsx'', Txt ''MBA_Online.xlsx'']
   \<and> map (\<lambda>r. r ''name'') (rows unified_example) = [Txt ''Asha'', Txt ''Ravi'', Txt ''Asha'', Txt ''Asha'']
   \<and> map (\<lambda>r. r ''remarks'') (rows unified_example) = [NA, NA, Txt ''ok'', Txt ''ok'']
   \<and> length (rows unified_example) = 4
   \<and> distinct (map (normalize example_repr) (header upload_ba))
   \<and> normalize example_repr (header upload_ba ! 1) = ''rate the course''
   \<and> reindex [] (load_file example_repr upload_ba)
        ((mk_row (map (normalize example_repr) (header upload_ba)) [Txt ''Asha'', Num 4])
           (''source_file'' := Txt (name upload_ba))) ''rate the course'' = Num 4
   \<and> \<not> list_all (\<lambda>f. distinct (map (normalize example_repr) (header f))) [upload_collide]
   \<and> (\<exists>e. data example_repr [upload_collide] = Some (Inl e))"
proof -
  note t = normalization_and_concatenation [of example_repr uploads_example upload_ba 1
      "[Txt ''Asha'', Num 4]" "[]"]
  have ne: "uploads_example \<noteq> []" by (simp add: uploads_example_def)
  note ex = mp [OF conjunct1 [OF conjunct2 [OF t]] conjI [OF ne uploads_example_distinct]]
  from ex obtain d where d: "data example_repr uploads_example = Some (Inr d)"
    "map (\<lambda>r. r ''source_file'') (rows d) =
       concat (map (\<lambda>f. replicate (length (body f)) (Txt (name f))) uploads_example)"
    "length (rows d) = sum_list (map (\<lambda>f. length (body f)) uploads_example)"
    by (elim exE conjE) (rule that; assumption)
  have u: "data example_repr uploads_example = Some (Inr unified_example)"
    unfolding unified_example_def using ne uploads_example_distinct by (rule data_frames)
  with d(1) have du: "d = unified_example" by simp
  have o: "map (\<lambda>r. r ''source_file'') (rows unified_example) =
      [Txt ''BA_Distance.csv'', Txt ''BA_Distance.csv'', Txt ''MBA_Online.xlsx'', Txt ''MBA_Online.xlsx'']"
    using d(2) unfolding du
    by (simp add: uploads_example_def upload_ba_def upload_mba_def numeral_2_eq_2)
  have l: "length (rows unified_example) = 4"
    using d(3) unfolding du by (simp add: uploads_example_def upload_ba_def upload_mba_def)
  have h1: "distinct (map (normalize example_repr) (header upload_ba))"
    by (simp add: upload_ba_header)
  have h2: "normalize example_repr (header upload_ba ! 1) = ''rate the course''"
    using upload_ba_header by (simp add: upload_ba_def)
  have h3: "(1::nat) < length (header upload_ba)"
    "length [Txt ''Asha'', Num 4] = length (header upload_ba)"
    by (simp_all add: upload_ba_def)
  have "reindex [] (load_file example_repr upload_ba)
        ((mk_row (map (normalize example_repr) (header upload_ba)) [Txt ''Asha'', Num 4])
           (''source_file'' := Txt (name upload_ba)))
        (normalize example_repr (header upload_ba ! 1)) = [Txt ''Asha'', Num 4] ! 1"
    using t h1 h2 h3 by simp
  then have v: "reindex [] (load_file example_repr upload_ba)
        ((mk_row (map (normalize example_repr) (header upload_ba)) [Txt ''Asha'', Num 4])
           (''source_file'' := Txt (name upload_ba))) ''rate the course'' = Num 4"
    by (simp only: h2) simp
  have c: "\<not> list_all (\<lambda>f. distinct (map (normalize example_repr) (header f))) [upload_collide]"
    by (simp add: upload_collide_def normalize_def strip_def is_space_def lower_def lower_char_def)
  have w: "\<exists>e. data example_repr [upload_collide] = Some (Inl e)"
    using normalization_and_concatenation [of example_repr "[upload_collide]"] c by blast
  show ?thesis
    by (intro conjI) (fact ne uploads_example_distinct u unified_example_columns o
        unified_example_names unified_example_remarks l h1 h2 v c w)+
qed

subsection \<open>Modes and filters of the unified table\<close>

text \<open>
  The mode column of the unified table holds, row by row, the mode of the row's file, and
  the sidebar keeps the rows whose mode and whose file are selected, in their order.
\<close>

lemma unified_mode_column:
  assumes "data repr files = Some (Inr d)"
  shows "map (\<lambda>r. r ''mode'') (rows (with_mode d)) =
     concat (map (\<lambda>f. replicate (length (body f)) (Txt (detect_mode (name f)))) files)"
proof -
  from assms have d: "d = concat_frames (map (load_file repr) files)"
    by (simp add: data_def split: if_splits)
  have "map (\<lambda>r. r ''mode'') (rows (with_mode d)) =
      map mode_cell (map (\<lambda>r. r ''source_file'') (rows d))"
    by (simp add: with_mode_def set_column_def comp_def)
  also have "map (\<lambda>r. r ''source_file'') (rows d) =
      concat (map (\<lambda>f. replicate (length (body f)) (Txt (name f))) files)"
  proof -
    have "rows (concat_frames (map (load_file repr) files)) =
        concat (map (\<lambda>df. map (reindex (map (load_file repr) files) df) (rows df))
          (map (load_file repr) files))"
      by (simp add: concat_frames_def)
    then show ?thesis
      by (simp only: d origin_rows)
  qed
  also have "map mode_cell \<dots> =
      concat (map (\<lambda>f. replicate (length (body f)) (Txt (detect_mode (name f)))) files)"
    by (simp add: map_concat comp_def mode_cell_def)
  finally show ?thesis .
qed

lemma filtered_rows:
  "rows (filtered modes files_sel df) =
     filter (\<lambda>r. r ''mode'' \<in> Txt ` set modes \<and> r ''source_file'' \<in> Txt ` set files_sel)
       (rows (with_mode df))"
  "columns (filtered modes files_sel df) = columns (with_mode df)"
  by (simp_all add: filtered_def select_rows_def conj_commute)

end
